theory Spec2Isabelle
  imports Complex_Main
begin

section \<open>Data model of geometric/engine.py\<close>

text \<open>
  Coordinates and gradients are one-dimensional numpy arrays of floats. They are modelled
  as lists of reals: floating-point rounding is idealised as exact arithmetic, every
  other step of the code is kept.
\<close>

type_synonym np_array = "real list"

text \<open>The result dictionary: keys \<open>energy\<close>, \<open>gradient\<close> and the optional \<open>s2\<close>.\<close>

record calc_result =
  energy :: real
  gradient :: np_array
  s2 :: "real option"

text \<open>
  The exceptions the modelled code raises. The first group are Python built-ins
  (\<open>IOError\<close> is \<open>OSError\<close>, \<open>CalledProcessError\<close> comes from \<open>subprocess\<close>), the second
  group are the classes imported from \<open>geometric/errors.py\<close>.
\<close>

datatype error =
    NotImplementedError
  | RuntimeError
  | ValueError
  | ZeroDivisionError
  | AttributeError
  | OSError
  | CalledProcessError
  | EngineError
  | Psi4EngineError
  | QChemEngineError
  | TeraChemEngineError
  | ConicalIntersectionEngineError
  | OpenMMEngineError
  | GromacsEngineError
  | MolproEngineError
  | QCEngineAPIEngineError

text \<open>
  Modelled from the spec: \<open>geometric/errors.py\<close> is not part of the source at hand. The
  spec speaks of "typed, adapter-specific EngineErrors", so every class imported from
  that module whose name ends in \<open>EngineError\<close> is taken to derive from \<open>EngineError\<close>;
  the Python built-ins do not. \<open>is_EngineError e\<close> is what \<open>except EngineError\<close> catches.
\<close>

fun is_EngineError :: "error \<Rightarrow> bool" where
  "is_EngineError NotImplementedError = False"
| "is_EngineError RuntimeError = False"
| "is_EngineError ValueError = False"
| "is_EngineError ZeroDivisionError = False"
| "is_EngineError AttributeError = False"
| "is_EngineError OSError = False"
| "is_EngineError CalledProcessError = False"
| "is_EngineError _ = True"

text \<open>
  A Work Queue task as \<open>queue_up_src_dest\<close> receives it: the command and the
  (source, destination) pairs of its input and output files.
\<close>

record job =
  command :: string
  in_files :: "(string \<times> string) list"
  out_files :: "(string \<times> string) list"

text \<open>
  The world outside the Python process: \<open>paths\<close> are the paths for which
  \<open>os.path.exists\<close> holds, \<open>wq\<close> the tasks handed to the Work Queue so far, \<open>ext\<close>
  everything else an adapter reads or writes (file contents, external programs).
\<close>

record 'x env =
  paths :: "string set"
  wq :: "job list"
  ext :: 'x

definition path_exists :: "string \<Rightarrow> 'x env \<Rightarrow> bool" where
  "path_exists p w = (p \<in> paths w)"

text \<open>\<open>os.makedirs\<close>: afterwards the directory exists (parent directories are not tracked).\<close>

definition makedirs :: "string \<Rightarrow> 'x env \<Rightarrow> 'x env" where
  "makedirs p w = w\<lparr>paths := insert p (paths w)\<rparr>"

text \<open>
  \<open>os.path.join(d, f)\<close> for a relative name \<open>f\<close>: a separator is inserted unless \<open>d\<close> is
  empty or ends in one. \<open>in_dir d f\<close> is the format \<open>'%s/f' % d\<close>, which always inserts it.
\<close>

definition path_join :: "string \<Rightarrow> string \<Rightarrow> string" where
  "path_join d f =
     (if d = [] then f else if last d = CHR ''/'' then d @ f else d @ ''/'' @ f)"

definition in_dir :: "string \<Rightarrow> string \<Rightarrow> string" where
  "in_dir d f = d @ ''/'' @ f"

text \<open>An entry of \<open>stored_calcs\<close>: \<open>{'coords': coords, 'result': result}\<close>.\<close>

record cache_entry =
  coords :: np_array
  result :: calc_result

text \<open>
  An Engine object: the hash table \<open>stored_calcs\<close>, keyed by \<open>hash(coords.tostring())\<close>,
  and the attributes \<open>attrs\<close> of the subclass (molecule, options, restart bookkeeping).
\<close>

record 's engine =
  stored_calcs :: "int \<rightharpoonup> cache_entry"
  attrs :: 's

text \<open>
  The methods a subclass of Engine may define. \<open>read_result\<close> is \<open>None\<close> when
  \<open>hasattr(self, 'read_result')\<close> is false. \<open>calc_new\<close> and \<open>calc_wq_new\<close> may change the
  subclass attributes and the outside world, also when they raise.
\<close>

record ('s, 'x) engine_class =
  read_result :: "(string \<Rightarrow> 's \<Rightarrow> 'x env \<Rightarrow> error + calc_result) option"
  calc_new :: "np_array \<Rightarrow> string \<Rightarrow> 's \<times> 'x env \<Rightarrow> (error + calc_result) \<times> 's \<times> 'x env"
  calc_wq_new :: "np_array \<Rightarrow> string \<Rightarrow> 's \<times> 'x env \<Rightarrow> (error + unit) \<times> 's \<times> 'x env"

section \<open>class Engine\<close>

text \<open>\<open>Engine.__init__\<close>: an empty hash table.\<close>

definition Engine_init :: "'s \<Rightarrow> 's engine" where
  "Engine_init a = \<lparr>stored_calcs = Map.empty, attrs = a\<rparr>"

text \<open>\<open>Engine.calc_new\<close> and \<open>Engine.calc_wq_new\<close> of the base class raise at once.\<close>

definition Engine_calc_new ::
  "np_array \<Rightarrow> string \<Rightarrow> 's \<times> 'x env \<Rightarrow> (error + calc_result) \<times> 's \<times> 'x env" where
  "Engine_calc_new c dirname st = (Inl NotImplementedError, st)"

definition Engine_calc_wq_new ::
  "np_array \<Rightarrow> string \<Rightarrow> 's \<times> 'x env \<Rightarrow> (error + unit) \<times> 's \<times> 'x env" where
  "Engine_calc_wq_new c dirname st = (Inl NotImplementedError, st)"

text \<open>
  The opportunistic read shared by \<open>calc\<close> and \<open>calc_wq\<close>:
  \<^verbatim>\<open>
  read_success = False
  if readfiles and os.path.exists(dirname) and hasattr(self, 'read_result'):
      try:
          result = self.read_result(dirname)
          read_success = True
      except:
          logger.info(...)
  \<close>
  \<open>Some r\<close> stands for \<open>read_success = True\<close> with \<open>result = r\<close>.
\<close>

definition try_read ::
  "('s, 'x) engine_class \<Rightarrow> bool \<Rightarrow> string \<Rightarrow> 's \<Rightarrow> 'x env \<Rightarrow> calc_result option" where
  "try_read C readfiles dirname a w =
     (if readfiles \<and> path_exists dirname w then
        (case read_result C of
           None \<Rightarrow> None
         | Some rr \<Rightarrow> (case rr dirname a w of Inl e \<Rightarrow> None | Inr r \<Rightarrow> Some r))
      else None)"

text \<open>
  \<open>Engine.calc(coords, dirname, readfiles)\<close>. \<open>h\<close> is Python's
  \<open>hash(coords.tostring())\<close>.
\<close>

definition calc ::
  "(np_array \<Rightarrow> int) \<Rightarrow> ('s, 'x) engine_class \<Rightarrow> np_array \<Rightarrow> string \<Rightarrow> bool \<Rightarrow>
   's engine \<times> 'x env \<Rightarrow> (error + calc_result) \<times> 's engine \<times> 'x env" where
  "calc h C c dirname readfiles st =
     (case st of (e, w) \<Rightarrow>
        let coord_hash = h c in
        (case stored_calcs e coord_hash of
           Some ent \<Rightarrow> (Inr (result ent), e, w)
         | None \<Rightarrow>
             (case try_read C readfiles dirname (attrs e) w of
                Some r \<Rightarrow>
                  (Inr r,
                   e\<lparr>stored_calcs := (stored_calcs e)(coord_hash \<mapsto> \<lparr>coords = c, result = r\<rparr>)\<rparr>,
                   w)
              | None \<Rightarrow>
                  let w1 = (if \<not> path_exists dirname w then makedirs dirname w else w) in
                  (case calc_new C c dirname (attrs e, w1) of
                     (Inl err, a', w') \<Rightarrow> (Inl err, e\<lparr>attrs := a'\<rparr>, w')
                   | (Inr r, a', w') \<Rightarrow>
                       (Inr r,
                        e\<lparr>attrs := a',
                          stored_calcs := (stored_calcs e)(coord_hash \<mapsto> \<lparr>coords = c, result = r\<rparr>)\<rparr>,
                        w')))))"

text \<open>The call \<open>calc(coords, dirname)\<close>, with the default \<open>readfiles=False\<close>.\<close>

definition calc_default ::
  "(np_array \<Rightarrow> int) \<Rightarrow> ('s, 'x) engine_class \<Rightarrow> np_array \<Rightarrow> string \<Rightarrow>
   's engine \<times> 'x env \<Rightarrow> (error + calc_result) \<times> 's engine \<times> 'x env" where
  "calc_default h C c dirname st = calc h C c dirname False st"

text \<open>\<open>Engine.clearCalcs\<close>.\<close>

definition clearCalcs :: "'s engine \<Rightarrow> 's engine" where
  "clearCalcs e = e\<lparr>stored_calcs := Map.empty\<rparr>"

text \<open>
  \<open>Engine.calc_wq(coords, dirname, readfiles)\<close>: returns nothing. A result read from
  disk is dropped, not stored.
\<close>

definition calc_wq ::
  "(np_array \<Rightarrow> int) \<Rightarrow> ('s, 'x) engine_class \<Rightarrow> np_array \<Rightarrow> string \<Rightarrow> bool \<Rightarrow>
   's engine \<times> 'x env \<Rightarrow> (error + unit) \<times> 's engine \<times> 'x env" where
  "calc_wq h C c dirname readfiles st =
     (case st of (e, w) \<Rightarrow>
        let coord_hash = h c in
        (case stored_calcs e coord_hash of
           Some ent \<Rightarrow> (Inr (), e, w)
         | None \<Rightarrow>
             (case try_read C readfiles dirname (attrs e) w of
                Some r \<Rightarrow> (Inr (), e, w)
              | None \<Rightarrow>
                  (case calc_wq_new C c dirname (attrs e, w) of
                     (r, a', w') \<Rightarrow> (r, e\<lparr>attrs := a'\<rparr>, w')))))"

text \<open>
  \<open>Engine.read_wq(coords, dirname)\<close>. \<open>self.read_result\<close> is called without a
  \<open>hasattr\<close> test, so a class without it raises AttributeError.
\<close>

definition read_wq ::
  "(np_array \<Rightarrow> int) \<Rightarrow> ('s, 'x) engine_class \<Rightarrow> np_array \<Rightarrow> string \<Rightarrow>
   's engine \<times> 'x env \<Rightarrow> (error + calc_result) \<times> 's engine \<times> 'x env" where
  "read_wq h C c dirname st =
     (case st of (e, w) \<Rightarrow>
        let coord_hash = h c in
        (case stored_calcs e coord_hash of
           Some ent \<Rightarrow> (Inr (result ent), e, w)
         | None \<Rightarrow>
             if \<not> path_exists dirname w then (Inl RuntimeError, e, w)
             else
               (case read_result C of
                  None \<Rightarrow> (Inl AttributeError, e, w)
                | Some rr \<Rightarrow>
                    (case rr dirname (attrs e) w of
                       Inl err \<Rightarrow> (Inl err, e, w)
                     | Inr r \<Rightarrow>
                         (Inr r,
                          e\<lparr>stored_calcs := (stored_calcs e)(coord_hash \<mapsto> \<lparr>coords = c, result = r\<rparr>)\<rparr>,
                          w)))))"

text \<open>
  The methods of Engine read \<open>self.stored_calcs\<close>, which only \<open>Engine.__init__\<close> assigns.
  An object of a subclass whose \<open>__init__\<close> may have skipped \<open>Engine.__init__\<close> is an
  \<open>engine_obj\<close>: \<open>table\<close> is \<open>None\<close> when the attribute \<open>stored_calcs\<close> was never assigned.
\<close>

record 's engine_obj =
  table :: "(int \<rightharpoonup> cache_entry) option"
  obj_attrs :: 's

text \<open>
  \<open>Engine.calc_wq\<close> on such an object. After hashing the coordinates the method evaluates
  \<open>coord_hash in self.stored_calcs\<close>, which raises AttributeError when the attribute is
  absent; with the attribute present the method runs as \<open>calc_wq\<close> above.
\<close>

definition calc_wq_obj ::
  "(np_array \<Rightarrow> int) \<Rightarrow> ('s, 'x) engine_class \<Rightarrow> np_array \<Rightarrow> string \<Rightarrow> bool \<Rightarrow>
   's engine_obj \<times> 'x env \<Rightarrow> (error + unit) \<times> 's engine_obj \<times> 'x env" where
  "calc_wq_obj h C c dirname readfiles st =
     (case st of (ob, w) \<Rightarrow>
        (case table ob of
           None \<Rightarrow> (Inl AttributeError, ob, w)
         | Some t \<Rightarrow>
             (case calc_wq h C c dirname readfiles (\<lparr>stored_calcs = t, attrs = obj_attrs ob\<rparr>, w) of
                (r, e', w') \<Rightarrow>
                  (r, \<lparr>table = Some (stored_calcs e'), obj_attrs = attrs e'\<rparr>, w'))))"

section \<open>class Blank\<close>

text \<open>\<open>Blank.calc_new\<close>: zero energy and a zero gradient of the length of \<open>coords\<close>.\<close>

definition Blank_calc_new ::
  "np_array \<Rightarrow> string \<Rightarrow> 's \<times> 'x env \<Rightarrow> (error + calc_result) \<times> 's \<times> 'x env" where
  "Blank_calc_new c dirname st =
     (Inr \<lparr>energy = 0, gradient = replicate (length c) 0, s2 = None\<rparr>, st)"

text \<open>Blank defines neither \<open>read_result\<close> nor \<open>calc_wq_new\<close>.\<close>

definition Blank :: "('s, 'x) engine_class" where
  "Blank = \<lparr>read_result = None, calc_new = Blank_calc_new, calc_wq_new = Engine_calc_wq_new\<rparr>"

section \<open>class QChem\<close>

text \<open>The \<open>%i\<close> conversion of an integer.\<close>

fun str_nat :: "nat \<Rightarrow> string" where
  "str_nat n =
     (if n < 10 then [char_of (48 + n)] else str_nat (n div 10) @ [char_of (48 + n mod 10)])"

declare str_nat.simps [simp del]

definition str_int :: "int \<Rightarrow> string" where
  "str_int i = (if i < 0 then CHR ''-'' # str_nat (nat (- i)) else str_nat (nat i))"

text \<open>
  The attributes of a QChem engine that its methods use: of the molecule \<open>self.M\<close> the
  frame \<open>xyzs[0]\<close> and the \<open>$rem\<close> options, then \<open>threads\<close> and \<open>qcdir\<close>.
  \<open>Molecule.edit_qcrems\<close> and \<open>Molecule.write\<close> belong to \<open>geometric/molecule.py\<close>, which is
  not part of the source at hand. From their call sites the former is taken to update the
  \<open>$rem\<close> options, a value \<open>None\<close> removing the key, and the latter to create the file it
  is given.
\<close>

record qchem_attrs =
  M_xyzs :: np_array
  M_qcrems :: "string \<rightharpoonup> string"
  threads :: "int option"
  qcdir :: bool

definition QChem_nt :: "qchem_attrs \<Rightarrow> string" where
  "QChem_nt a = (case threads a of Some n \<Rightarrow> '' -nt '' @ str_int n | None \<Rightarrow> [])"

text \<open>
  \<open>QChem.read_result\<close> opens and scans \<open>run.out\<close> and \<open>run.d/GRAD\<close> below \<open>dirname\<close>.
  The scan is the parameter \<open>parse\<close>: what it returns or raises for the files found in
  the world.
\<close>

definition QChem_read_result ::
  "(string \<Rightarrow> 'x env \<Rightarrow> error + calc_result) \<Rightarrow>
   string \<Rightarrow> qchem_attrs \<Rightarrow> 'x env \<Rightarrow> error + calc_result" where
  "QChem_read_result parse dirname a w = parse dirname w"

text \<open>
  \<open>QChem.calc_new\<close>. \<open>run cmd dirname w\<close> is \<open>subprocess.check_call(cmd, cwd=dirname)\<close>:
  whether the exit status was zero, and the world afterwards. \<open>b2a\<close> is the constant
  \<open>bohr2ang\<close> of \<open>geometric/nifty.py\<close>. \<open>coords.reshape(-1, 3)\<close> raises ValueError when
  the length is not a multiple of three.
\<close>

definition QChem_calc_new ::
  "(string \<Rightarrow> string \<Rightarrow> 'x env \<Rightarrow> bool \<times> 'x env) \<Rightarrow>
   (string \<Rightarrow> 'x env \<Rightarrow> error + calc_result) \<Rightarrow> real \<Rightarrow>
   np_array \<Rightarrow> string \<Rightarrow> qchem_attrs \<times> 'x env \<Rightarrow>
   (error + calc_result) \<times> qchem_attrs \<times> 'x env" where
  "QChem_calc_new run parse b2a c dirname st =
     (case st of (a, w) \<Rightarrow>
        let w1 = (if \<not> path_exists dirname w then makedirs dirname w else w) in
        if length c mod 3 \<noteq> 0 then (Inl ValueError, a, w1)
        else
          let a1 = a\<lparr>M_xyzs := map (\<lambda>x. x * b2a) c,
                     M_qcrems := (M_qcrems a)(''jobtype'' \<mapsto> ''force'')\<rparr>;
              a2 = (if qcdir a1 \<and> \<not> path_exists (path_join dirname ''run.d'') w1
                    then a1\<lparr>qcdir := False, M_qcrems := (M_qcrems a1)(''scf_guess'' := None)\<rparr>
                    else a1);
              w2 = w1\<lparr>paths := insert (path_join dirname ''run.in'') (paths w1)\<rparr>
          in
          (case run (''qchem'' @ QChem_nt a2 @ '' -save run.in run.out run.d > run.log 2>&1'')
                  dirname w2 of
             (ok, w3) \<Rightarrow>
               if \<not> ok then (Inl QChemEngineError, a2, w3)
               else
                 let a3 = (if qcdir a2 then a2
                           else a2\<lparr>qcdir := True,
                                   M_qcrems := (M_qcrems a2)(''scf_guess'' \<mapsto> ''read'')\<rparr>)
                 in
                 (case QChem_read_result parse dirname a3 w3 of
                    Inl err \<Rightarrow>
                      (Inl (if err = OSError \<or> err = RuntimeError \<or> err = NotImplementedError
                               \<or> err = CalledProcessError
                            then QChemEngineError else err), a3, w3)
                  | Inr r \<Rightarrow> (Inr r, a3, w3))))"

text \<open>
  \<open>QChem.calc_wq_new\<close>.
  Modelled from the spec: \<open>queue_up_src_dest\<close> of \<open>geometric/nifty.py\<close> is not part of the
  source at hand; following the spec's \<open>enqueue(command, input manifest, output manifest)\<close>
  it appends one task to the queue.
\<close>

definition QChem_calc_wq_new ::
  "real \<Rightarrow> np_array \<Rightarrow> string \<Rightarrow> qchem_attrs \<times> 'x env \<Rightarrow>
   (error + unit) \<times> qchem_attrs \<times> 'x env" where
  "QChem_calc_wq_new b2a c dirname st =
     (case st of (a, w) \<Rightarrow>
        let w1 = (if \<not> path_exists dirname w then makedirs dirname w else w) in
        if length c mod 3 \<noteq> 0 then (Inl ValueError, a, w1)
        else
          let a1 = a\<lparr>M_xyzs := map (\<lambda>x. x * b2a) c,
                     M_qcrems := (M_qcrems a)(''jobtype'' \<mapsto> ''force'')\<rparr>;
              w2 = w1\<lparr>paths := insert (path_join dirname ''run.in'') (paths w1)\<rparr>;
              inf = [(in_dir dirname ''run.in'', ''run.in'')];
              outf = [(in_dir dirname ''run.out'', ''run.out''),
                      (in_dir dirname ''run.log'', ''run.log'')]
          in
          if qcdir a1 then (Inl RuntimeError, a1, w2)
          else
            (Inr (), a1,
             w2\<lparr>wq := wq w2 @
                [\<lparr>command = ''qchem'' @ QChem_nt a1 @ '' run.in run.out &> run.log'',
                  in_files = inf, out_files = outf\<rparr>]\<rparr>))"

definition QChem ::
  "(string \<Rightarrow> string \<Rightarrow> 'x env \<Rightarrow> bool \<times> 'x env) \<Rightarrow>
   (string \<Rightarrow> 'x env \<Rightarrow> error + calc_result) \<Rightarrow> real \<Rightarrow> (qchem_attrs, 'x) engine_class" where
  "QChem run parse b2a =
     \<lparr>read_result = Some (QChem_read_result parse),
      calc_new = QChem_calc_new run parse b2a,
      calc_wq_new = QChem_calc_wq_new b2a\<rparr>"

section \<open>class QCEngineAPI\<close>

text \<open>
  The dictionary returned by \<open>qcengine.compute\<close>, as far as \<open>calc_new\<close> reads it:
  \<open>ret["success"]\<close>, \<open>ret["error"]["error_message"]\<close>,
  \<open>ret["properties"]["return_energy"]\<close> and \<open>ret["return_result"]\<close>.
\<close>

record qc_ret =
  success :: bool
  error_message :: string
  return_energy :: real
  return_result :: np_array

text \<open>
  \<open>QCEngineAPI.__init__\<close> does not call \<open>Engine.__init__\<close>: the object has the schema,
  the program name and the list \<open>schema_traj\<close>, and no \<open>stored_calcs\<close>.
\<close>

record 'sch qcengine_attrs =
  schema :: 'sch
  program :: string
  schema_traj :: "qc_ret list"

text \<open>
  \<open>QCEngineAPI.calc_new\<close>. \<open>compute sch c prog w\<close> is \<open>qcengine.compute\<close> on the copy of the
  schema with the geometry replaced by \<open>coords.tolist()\<close>.
\<close>

definition QCEngineAPI_calc_new ::
  "('sch \<Rightarrow> np_array \<Rightarrow> string \<Rightarrow> 'x env \<Rightarrow> qc_ret \<times> 'x env) \<Rightarrow>
   np_array \<Rightarrow> string \<Rightarrow> 'sch qcengine_attrs \<times> 'x env \<Rightarrow>
   (error + calc_result) \<times> 'sch qcengine_attrs \<times> 'x env" where
  "QCEngineAPI_calc_new compute c dirname st =
     (case st of (a, w) \<Rightarrow>
        (case compute (schema a) c (program a) w of
           (ret, w') \<Rightarrow>
             let a' = a\<lparr>schema_traj := schema_traj a @ [ret]\<rparr> in
             if \<not> success ret then (Inl QCEngineAPIEngineError, a', w')
             else (Inr \<lparr>energy = return_energy ret, gradient = return_result ret, s2 = None\<rparr>,
                   a', w')))"

text \<open>\<open>QCEngineAPI.calc\<close> overrides \<open>Engine.calc\<close>.\<close>

definition QCEngineAPI_calc ::
  "('sch \<Rightarrow> np_array \<Rightarrow> string \<Rightarrow> 'x env \<Rightarrow> qc_ret \<times> 'x env) \<Rightarrow>
   np_array \<Rightarrow> string \<Rightarrow> 'sch qcengine_attrs \<times> 'x env \<Rightarrow>
   (error + calc_result) \<times> 'sch qcengine_attrs \<times> 'x env" where
  "QCEngineAPI_calc compute c dirname st = QCEngineAPI_calc_new compute c dirname st"

text \<open>
  The methods Engine's own methods find on a QCEngineAPI object: the class defines
  \<open>calc_new\<close>, and neither \<open>read_result\<close> nor \<open>calc_wq_new\<close>.
\<close>

definition QCEngineAPI_class ::
  "('sch \<Rightarrow> np_array \<Rightarrow> string \<Rightarrow> 'x env \<Rightarrow> qc_ret \<times> 'x env) \<Rightarrow>
   ('sch qcengine_attrs, 'x) engine_class" where
  "QCEngineAPI_class compute =
     \<lparr>read_result = None,
      calc_new = QCEngineAPI_calc_new compute,
      calc_wq_new = Engine_calc_wq_new\<rparr>"

text \<open>
  \<open>QCEngineAPI.__init__\<close>: it keeps the schema (\<open>sch\<close>, with the driver set to gradient) and
  the program, builds the molecule and sets \<open>schema_traj\<close> to the empty list. It does not
  run \<open>Engine.__init__\<close>, so \<open>stored_calcs\<close> is never assigned.
\<close>

definition QCEngineAPI_init :: "'sch \<Rightarrow> string \<Rightarrow> 'sch qcengine_attrs engine_obj" where
  "QCEngineAPI_init sch prog =
     \<lparr>table = None, obj_attrs = \<lparr>schema = sch, program = prog, schema_traj = []\<rparr>\<rparr>"

section \<open>class ConicalIntersection\<close>

text \<open>
  The numpy operations on one-dimensional arrays that \<open>calc_new\<close> uses. \<open>+\<close> and \<open>-\<close>
  broadcast an array of length one and raise ValueError on any other mismatch of
  lengths; \<open>np.dot\<close> raises ValueError whenever the lengths differ. \<open>np_scale k a\<close> is
  the product \<open>k * a\<close> of a float and an array.
\<close>

definition np_add :: "np_array \<Rightarrow> np_array \<Rightarrow> error + np_array" where
  "np_add a b =
     (if length a = length b then Inr (map2 (+) a b)
      else if length a = 1 then Inr (map (\<lambda>y. hd a + y) b)
      else if length b = 1 then Inr (map (\<lambda>x. x + hd b) a)
      else Inl ValueError)"

definition np_sub :: "np_array \<Rightarrow> np_array \<Rightarrow> error + np_array" where
  "np_sub a b =
     (if length a = length b then Inr (map2 (-) a b)
      else if length a = 1 then Inr (map (\<lambda>y. hd a - y) b)
      else if length b = 1 then Inr (map (\<lambda>x. x - hd b) a)
      else Inl ValueError)"

definition np_scale :: "real \<Rightarrow> np_array \<Rightarrow> np_array" where
  "np_scale k a = map (\<lambda>x. k * x) a"

definition np_dot :: "np_array \<Rightarrow> np_array \<Rightarrow> error + real" where
  "np_dot a b =
     (if length a = length b then Inr (sum_list (map2 (*) a b)) else Inl ValueError)"

text \<open>The local variables of \<open>calc_new\<close> after the two single-point calculations.\<close>

record ci_terms =
  EAvg :: real
  EDif :: real
  GAvg :: np_array
  GDif :: np_array
  Penalty :: real
  Obj :: real
  ObjGrad :: np_array

text \<open>
  The arithmetic of \<open>ConicalIntersection.calc_new\<close>, from "Calculate energy and gradient
  avg and differences" on; \<open>rI\<close> and \<open>rJ\<close> are the results of the states \<open>I\<close> and \<open>J\<close>. The
  energies are Python floats, so the division raises ZeroDivisionError on a zero
  denominator. \<open>GAng\<close> is only logged: of its computation the model keeps the \<open>np.dot\<close>,
  which can raise, and not the value.
\<close>

definition ConicalIntersection_terms ::
  "real \<Rightarrow> real \<Rightarrow> calc_result \<Rightarrow> calc_result \<Rightarrow> error + ci_terms" where
  "ConicalIntersection_terms sg al rI rJ =
     (let eavg = 0.5 * (energy rI + energy rJ);
          edif = energy rI - energy rJ
      in
      (case np_add (gradient rI) (gradient rJ) of
         Inl err \<Rightarrow> Inl err
       | Inr gsum \<Rightarrow>
           let gavg = np_scale 0.5 gsum in
           (case np_sub (gradient rI) (gradient rJ) of
              Inl err \<Rightarrow> Inl err
            | Inr gdif \<Rightarrow>
                (case np_dot (gradient rI) (gradient rJ) of
                   Inl err \<Rightarrow> Inl err
                 | Inr gdot \<Rightarrow>
                     if edif + al = 0 then Inl ZeroDivisionError
                     else
                       let penalty = edif ^ 2 / (edif + al);
                           obj = eavg + sg * penalty;
                           k = sg * (edif ^ 2 + 2 * al * edif) / (edif + al) ^ 2
                       in
                       (case np_add gavg (np_scale k gdif) of
                          Inl err \<Rightarrow> Inl err
                        | Inr objgrad \<Rightarrow>
                            Inr \<lparr>EAvg = eavg, EDif = edif, GAvg = gavg, GDif = gdif,
                                 Penalty = penalty, Obj = obj, ObjGrad = objgrad\<rparr>)))))"

text \<open>
  "Determine the higher energy state": \<open>r1\<close> and \<open>r2\<close> are the results of the engines in
  roles 1 and 2; \<open>I = 2, J = 1\<close> when \<open>EDict[2] > EDict[1]\<close>, else \<open>I = 1, J = 2\<close>.
\<close>

definition ConicalIntersection_objective ::
  "real \<Rightarrow> real \<Rightarrow> calc_result \<Rightarrow> calc_result \<Rightarrow> error + ci_terms" where
  "ConicalIntersection_objective sg al r1 r2 =
     (if energy r2 > energy r1 then ConicalIntersection_terms sg al r2 r1
      else ConicalIntersection_terms sg al r1 r2)"

text \<open>
  What \<open>calc_new\<close> returns of these terms, \<open>Obj\<close> and \<open>ObjGrad\<close>, or the error raised.
\<close>

definition returned :: "error + ci_terms \<Rightarrow> error + real \<times> np_array" where
  "returned x = map_sum id (\<lambda>t. (Obj t, ObjGrad t)) x"

text \<open>
  The attributes of a ConicalIntersection engine: \<open>self.engines[1]\<close>, \<open>self.engines[2]\<close>,
  \<open>sigma\<close> and \<open>alpha\<close>. The two engines are whole objects, each with its own state.
\<close>

record ('e1, 'e2) ci_attrs =
  engine1 :: 'e1
  engine2 :: 'e2
  sigma :: real
  alpha :: real

text \<open>
  \<open>ConicalIntersection.calc_new\<close>. \<open>calc1\<close> and \<open>calc2\<close> are the \<open>calc\<close> methods of the two
  engines, called as \<open>calc(coords, state_dnm)\<close>. The loop over \<open>[1, 2]\<close> is written out.
\<close>

definition ConicalIntersection_calc_new ::
  "(np_array \<Rightarrow> string \<Rightarrow> 'e1 \<times> 'x env \<Rightarrow> (error + calc_result) \<times> 'e1 \<times> 'x env) \<Rightarrow>
   (np_array \<Rightarrow> string \<Rightarrow> 'e2 \<times> 'x env \<Rightarrow> (error + calc_result) \<times> 'e2 \<times> 'x env) \<Rightarrow>
   np_array \<Rightarrow> string \<Rightarrow> ('e1, 'e2) ci_attrs \<times> 'x env \<Rightarrow>
   (error + calc_result) \<times> ('e1, 'e2) ci_attrs \<times> 'x env" where
  "ConicalIntersection_calc_new calc1 calc2 c dirname st =
     (case st of (a, w) \<Rightarrow>
        let d1 = path_join dirname ''state_1'';
            w1 = (if \<not> path_exists d1 w then makedirs d1 w else w)
        in
        (case calc1 c d1 (engine1 a, w1) of
           (Inl err, e1', w2) \<Rightarrow>
             (Inl (if is_EngineError err then ConicalIntersectionEngineError else err),
              a\<lparr>engine1 := e1'\<rparr>, w2)
         | (Inr r1, e1', w2) \<Rightarrow>
             let d2 = path_join dirname ''state_2'';
                 w3 = (if \<not> path_exists d2 w2 then makedirs d2 w2 else w2)
             in
             (case calc2 c d2 (engine2 a, w3) of
                (Inl err, e2', w4) \<Rightarrow>
                  (Inl (if is_EngineError err then ConicalIntersectionEngineError else err),
                   a\<lparr>engine1 := e1', engine2 := e2'\<rparr>, w4)
              | (Inr r2, e2', w4) \<Rightarrow>
                  (case ConicalIntersection_objective (sigma a) (alpha a) r1 r2 of
                     Inl err \<Rightarrow> (Inl err, a\<lparr>engine1 := e1', engine2 := e2'\<rparr>, w4)
                   | Inr t \<Rightarrow>
                       (Inr \<lparr>energy = Obj t, gradient = ObjGrad t, s2 = None\<rparr>,
                        a\<lparr>engine1 := e1', engine2 := e2'\<rparr>, w4)))))"

text \<open>
  ConicalIntersection derives from Engine and overrides \<open>calc_new\<close> (and
  \<open>number_output\<close>) only: \<open>calc\<close>, \<open>calc_wq\<close> and \<open>read_wq\<close> are the inherited ones.
\<close>

definition ConicalIntersection ::
  "(np_array \<Rightarrow> string \<Rightarrow> 'e1 \<times> 'x env \<Rightarrow> (error + calc_result) \<times> 'e1 \<times> 'x env) \<Rightarrow>
   (np_array \<Rightarrow> string \<Rightarrow> 'e2 \<times> 'x env \<Rightarrow> (error + calc_result) \<times> 'e2 \<times> 'x env) \<Rightarrow>
   (('e1, 'e2) ci_attrs, 'x) engine_class" where
  "ConicalIntersection calc1 calc2 =
     \<lparr>read_result = None,
      calc_new = ConicalIntersection_calc_new calc1 calc2,
      calc_wq_new = Engine_calc_wq_new\<rparr>"

text \<open>\<open>ConicalIntersection.__init__\<close>, which ends in \<open>Engine.__init__\<close>.\<close>

definition ConicalIntersection_init ::
  "'e1 \<Rightarrow> 'e2 \<Rightarrow> real \<Rightarrow> real \<Rightarrow> ('e1, 'e2) ci_attrs engine" where
  "ConicalIntersection_init e1 e2 sg al =
     Engine_init \<lparr>engine1 = e1, engine2 = e2, sigma = sg, alpha = al\<rparr>"

section \<open>An invocation-counting engine class\<close>

text \<open>
  \<open>counting C\<close> behaves as the class \<open>C\<close> and keeps, beside the attributes of \<open>C\<close>, the
  number of times \<open>calc_new\<close> has been entered.
\<close>

definition counting :: "('s, 'x) engine_class \<Rightarrow> (nat \<times> 's, 'x) engine_class" where
  "counting C =
     \<lparr>read_result = map_option (\<lambda>rr dirname na w. rr dirname (snd na) w) (read_result C),
      calc_new = (\<lambda>c dirname (na, w).
         case calc_new C c dirname (snd na, w) of (r, a', w') \<Rightarrow> (r, (Suc (fst na), a'), w')),
      calc_wq_new = (\<lambda>c dirname (na, w).
         case calc_wq_new C c dirname (snd na, w) of (r, a', w') \<Rightarrow> (r, (fst na, a'), w'))\<rparr>"

section \<open>Sample inputs\<close>

text \<open>
  Concrete values on which the theorems below are evaluated. \<open>sample_hash\<close> stands for
  Python's hash in these runs; every general theorem holds for any hash function \<open>h\<close>.
  \<open>run_fails\<close> is a Q-Chem executable that exits with a nonzero status, \<open>parse_fails\<close> an
  output scan that finds no file to open.
\<close>

definition sample_hash :: "np_array \<Rightarrow> int" where
  "sample_hash c = int (length c)"

definition empty_world :: "unit env" where
  "empty_world = \<lparr>paths = {}, wq = [], ext = ()\<rparr>"

definition qchem_fresh :: "qchem_attrs" where
  "qchem_fresh = \<lparr>M_xyzs = [], M_qcrems = Map.empty, threads = None, qcdir = False\<rparr>"

definition run_fails :: "string \<Rightarrow> string \<Rightarrow> unit env \<Rightarrow> bool \<times> unit env" where
  "run_fails cmd dirname w = (False, w)"

definition parse_fails :: "string \<Rightarrow> unit env \<Rightarrow> error + calc_result" where
  "parse_fails dirname w = Inl OSError"

definition QChem_sample :: "(qchem_attrs, unit) engine_class" where
  "QChem_sample = QChem run_fails parse_fails 0.529177210"

text \<open>A world in which the directory \<open>tmp\<close> exists.\<close>

definition tmp_world :: "unit env" where
  "tmp_world = \<lparr>paths = {''tmp''}, wq = [], ext = ()\<rparr>"

text \<open>An output scan that finds the result \<open>r\<close>.\<close>

definition parse_finds :: "calc_result \<Rightarrow> string \<Rightarrow> unit env \<Rightarrow> error + calc_result" where
  "parse_finds r dirname w = Inr r"

definition zero_result :: calc_result where
  "zero_result = \<lparr>energy = 0, gradient = [0, 0, 0], s2 = Some 0\<rparr>"

text \<open>A QChem engine whose hash table holds \<open>zero_result\<close> for the sample geometry.\<close>

definition cached_engine :: "qchem_attrs engine" where
  "cached_engine =
     \<lparr>stored_calcs = [3 \<mapsto> \<lparr>coords = [0, 0, 0], result = zero_result\<rparr>], attrs = qchem_fresh\<rparr>"

text \<open>The task a fresh QChem engine queues for the directory \<open>tmp\<close>, and its attributes afterwards.\<close>

definition sample_job :: job where
  "sample_job =
     \<lparr>command = ''qchem run.in run.out &> run.log'',
      in_files = [(''tmp/run.in'', ''run.in'')],
      out_files = [(''tmp/run.out'', ''run.out''), (''tmp/run.log'', ''run.log'')]\<rparr>"

definition submitted_attrs :: qchem_attrs where
  "submitted_attrs =
     \<lparr>M_xyzs = [0, 0, 0], M_qcrems = [''jobtype'' \<mapsto> ''force''], threads = None, qcdir = False\<rparr>"

text \<open>The parameters of the spec's worked example, \<open>\<sigma> = 3.5\<close> and \<open>\<alpha> = 0.02\<close>.\<close>

definition sample_sigma :: real where
  "sample_sigma = 3.5"

definition sample_alpha :: real where
  "sample_alpha = 0.02"

text \<open>A Blank engine after one calculation at the sample geometry.\<close>

definition blank_cached :: "unit engine" where
  "blank_cached =
     \<lparr>stored_calcs = [3 \<mapsto> \<lparr>coords = [0, 0, 0],
                              result = \<lparr>energy = 0, gradient = [0, 0, 0], s2 = None\<rparr>\<rparr>],
      attrs = ()\<rparr>"

text \<open>A \<open>qcengine.compute\<close> that reports failure.\<close>

definition compute_fails :: "unit \<Rightarrow> np_array \<Rightarrow> string \<Rightarrow> unit env \<Rightarrow> qc_ret \<times> unit env" where
  "compute_fails sch c prog w =
     (\<lparr>success = False, error_message = ''no program'', return_energy = 0, return_result = []\<rparr>, w)"

text \<open>A stub \<open>calc\<close> method that returns the fixed result \<open>r\<close> and touches nothing.\<close>

definition stub ::
  "calc_result \<Rightarrow> np_array \<Rightarrow> string \<Rightarrow> 'e \<times> 'x env \<Rightarrow> (error + calc_result) \<times> 'e \<times> 'x env" where
  "stub r c dirname st = (Inr r, st)"

section \<open>The hash table of Engine.calc\<close>

lemma calc_hit:
  "stored_calcs e (h c) = Some ent \<Longrightarrow>
   calc h C c dirname readfiles (e, w) = (Inr (result ent), e, w)"
  by (simp add: calc_def)

lemma calc_miss_stores:
  assumes "stored_calcs e (h c) = None"
      and "calc h C c dirname readfiles (e, w) = (Inr r, e1, w1)"
    shows "stored_calcs e1 (h c) = Some \<lparr>coords = c, result = r\<rparr>"
  using assms
  by (auto simp: calc_def Let_def split: option.splits prod.splits sum.splits)

lemma calc_returns_stored:
  assumes "calc h C c dirname readfiles (e, w) = (Inr r, e1, w1)"
    shows "\<exists>ent. stored_calcs e1 (h c) = Some ent \<and> result ent = r"
proof (cases "stored_calcs e (h c)")
  case None
  from calc_miss_stores [OF None assms] show ?thesis by simp
next
  case (Some ent)
  with assms show ?thesis by (simp add: calc_hit)
qed

text \<open>A call that raises stores nothing, so a repeated call runs \<open>calc_new\<close> again.\<close>

lemma calc_error_keeps_cache:
  assumes "calc h C c dirname readfiles (e, w) = (Inl err, e1, w1)"
    shows "stored_calcs e1 = stored_calcs e"
  using assms
  by (auto simp: calc_def Let_def split: option.splits prod.splits sum.splits)

text \<open>
  C1. Idempotence of \<open>calc(g, d)\<close>: when the fingerprint of \<open>g\<close> is not yet in the hash table
  and the first call returns a result \<open>r\<close>, a second call with the same arguments returns
  the same \<open>r\<close> and leaves the engine and the world as the first call left them. The
  counter of the counting class has then advanced by exactly one over both calls: the
  first call entered \<open>calc_new\<close> once, the second was served from the hash table.
\<close>

theorem calc_twice:
  assumes "stored_calcs e (h c) = None"
      and "calc h (counting C) c dirname False (e, w) = (Inr r, e1, w1)"
    shows "calc h (counting C) c dirname False (e1, w1) = (Inr r, e1, w1)
           \<and> fst (attrs e1) = Suc (fst (attrs e))"
proof -
  have "stored_calcs e1 (h c) = Some \<lparr>coords = c, result = r\<rparr>"
    using assms by (rule calc_miss_stores)
  then have "calc h (counting C) c dirname False (e1, w1) = (Inr r, e1, w1)"
    by (simp add: calc_hit)
  moreover have "fst (attrs e1) = Suc (fst (attrs e))"
    using assms
    by (auto simp: calc_def try_read_def counting_def Let_def
             split: option.splits prod.splits sum.splits)
  ultimately show ?thesis by simp
qed

lemma blank_first_call:
  "calc sample_hash (counting Blank) [0, 0, 0] ''tmp'' False (Engine_init (0, ()), empty_world) =
     (Inr \<lparr>energy = 0, gradient = [0, 0, 0], s2 = None\<rparr>,
      \<lparr>stored_calcs = [3 \<mapsto> \<lparr>coords = [0, 0, 0],
                               result = \<lparr>energy = 0, gradient = [0, 0, 0], s2 = None\<rparr>\<rparr>],
        attrs = (Suc 0, ())\<rparr>,
      \<lparr>paths = {''tmp''}, wq = [], ext = ()\<rparr>)"
  by (simp add: calc_def try_read_def counting_def Blank_def Blank_calc_new_def Engine_init_def
      empty_world_def sample_hash_def path_exists_def makedirs_def numeral_3_eq_3)

theorem calc_twice_witness:
  "stored_calcs (Engine_init (0::nat, ())) (sample_hash [0, 0, 0]) = None
   \<and> calc sample_hash (counting Blank) [0, 0, 0] ''tmp'' False
        (snd (calc sample_hash (counting Blank) [0, 0, 0] ''tmp'' False
               (Engine_init (0, ()), empty_world))) =
       calc sample_hash (counting Blank) [0, 0, 0] ''tmp'' False
               (Engine_init (0, ()), empty_world)
   \<and> fst (attrs (fst (snd (calc sample_hash (counting Blank) [0, 0, 0] ''tmp'' False
               (Engine_init (0, ()), empty_world))))) = 1"
proof -
  have miss: "stored_calcs (Engine_init (0::nat, ())) (sample_hash [0, 0, 0]) = None"
    by (simp add: Engine_init_def)
  note twice = calc_twice [OF miss blank_first_call]
  show ?thesis
    using miss twice by (simp add: blank_first_call)
qed

section \<open>Submitting and collecting\<close>

text \<open>
  Submitting on a class without asynchronous support, for an engine that owns a hash
  table: when the class inherits \<open>calc_wq_new\<close> from Engine, the fingerprint is not in the
  hash table and nothing is read from disk, \<open>calc_wq\<close> raises NotImplementedError (the
  code's capability error, "Work Queue is not implemented for this class") and leaves
  the engine and the world exactly as they were: no directory is created and no task is
  queued.
\<close>

lemma calc_wq_no_async:
  assumes "calc_wq_new C = Engine_calc_wq_new"
      and "stored_calcs e (h c) = None"
      and "try_read C readfiles dirname (attrs e) w = None"
    shows "calc_wq h C c dirname readfiles (e, w) = (Inl NotImplementedError, e, w)"
  using assms by (simp add: calc_wq_def Engine_calc_wq_new_def)

lemma calc_wq_no_async_blank:
  "calc_wq_new (Blank :: (unit, unit) engine_class) = Engine_calc_wq_new
   \<and> stored_calcs (Engine_init ()) (sample_hash [0, 0, 0]) = None
   \<and> try_read (Blank :: (unit, unit) engine_class) True ''tmp'' () empty_world = None
   \<and> calc_wq sample_hash Blank [0, 0, 0] ''tmp'' True (Engine_init (), empty_world) =
       (Inl NotImplementedError, Engine_init (), empty_world)"
proof -
  have a: "calc_wq_new (Blank :: (unit, unit) engine_class) = Engine_calc_wq_new"
    by (simp add: Blank_def)
  have b: "stored_calcs (Engine_init ()) (sample_hash [0, 0, 0]) = None"
    by (simp add: Engine_init_def)
  have c: "try_read (Blank :: (unit, unit) engine_class) True ''tmp''
             (attrs (Engine_init ())) empty_world = None"
    by (simp add: try_read_def Blank_def)
  from calc_wq_no_async [where h = sample_hash and c = "[0, 0, 0]", OF a b c] a b c show ?thesis
    by (simp add: Engine_init_def)
qed

lemma calc_wq_obj_no_async:
  assumes "calc_wq_new C = Engine_calc_wq_new"
      and "t (h c) = None"
      and "try_read C readfiles dirname a w = None"
    shows "calc_wq_obj h C c dirname readfiles (\<lparr>table = Some t, obj_attrs = a\<rparr>, w) =
             (Inl NotImplementedError, \<lparr>table = Some t, obj_attrs = a\<rparr>, w)"
  using assms by (simp add: calc_wq_obj_def calc_wq_def Engine_calc_wq_new_def)

lemma calc_wq_obj_uninitialised:
  "calc_wq_obj h C c dirname readfiles (\<lparr>table = None, obj_attrs = a\<rparr>, w) =
     (Inl AttributeError, \<lparr>table = None, obj_attrs = a\<rparr>, w)"
  by (simp add: calc_wq_obj_def)

text \<open>
  C7. Every engine whose class lacks asynchronous support should fail \<open>submit\<close> with the
  capability error, and the engines that ran \<open>Engine.__init__\<close> do (the two lemmas
  \<open>calc_wq_no_async\<close> and \<open>calc_wq_obj_no_async\<close>). A QCEngineAPI object does not: its class
  inherits \<open>calc_wq_new\<close> from Engine, so it lacks asynchronous support, but its
  \<open>__init__\<close> never assigned \<open>stored_calcs\<close>, and \<open>calc_wq\<close> raises AttributeError at the
  hash-table lookup before it reaches \<open>calc_wq_new\<close>. The object and the world are
  unchanged, so no directory is created and no task is queued.
\<close>

theorem qcengine_calc_wq_attribute_error:
  "calc_wq_new (QCEngineAPI_class compute_fails) = Engine_calc_wq_new
   \<and> calc_wq_obj sample_hash (QCEngineAPI_class compute_fails) [0, 0, 0] ''tmp'' False
        (QCEngineAPI_init () ''psi4'', empty_world) =
       (Inl AttributeError, QCEngineAPI_init () ''psi4'', empty_world)
   \<and> AttributeError \<noteq> NotImplementedError"
  by (simp add: QCEngineAPI_class_def QCEngineAPI_init_def calc_wq_obj_def)

text \<open>
  C3. A failed opportunistic read is swallowed: when the fingerprint is not in the hash
  table, \<open>readfiles\<close> is true, the directory exists, the class has \<open>read_result\<close> and
  \<open>read_result\<close> raises any error \<open>err\<close>, then \<open>calc\<close> does exactly what a fresh \<open>calc_new\<close>
  run does: it returns (and stores) the result of \<open>calc_new\<close>, or raises what \<open>calc_new\<close>
  raises. The error \<open>err\<close> of the read appears nowhere in the outcome.
\<close>

theorem calc_read_failure:
  assumes "stored_calcs e (h c) = None"
      and "path_exists dirname w"
      and "read_result C = Some rr"
      and "rr dirname (attrs e) w = Inl err"
    shows "calc h C c dirname True (e, w) =
      (case calc_new C c dirname (attrs e, w) of
         (Inl err', a', w') \<Rightarrow> (Inl err', e\<lparr>attrs := a'\<rparr>, w')
       | (Inr r, a', w') \<Rightarrow>
           (Inr r,
            e\<lparr>attrs := a', stored_calcs := (stored_calcs e)(h c \<mapsto> \<lparr>coords = c, result = r\<rparr>)\<rparr>,
            w'))"
  using assms by (simp add: calc_def try_read_def)

lemma qchem_sample_calc_new:
  "calc_new QChem_sample [0, 0, 0] ''tmp'' (qchem_fresh, tmp_world) =
     (Inl QChemEngineError,
      \<lparr>M_xyzs = [0, 0, 0], M_qcrems = [''jobtype'' \<mapsto> ''force''], threads = None, qcdir = False\<rparr>,
      \<lparr>paths = {''tmp/run.in'', ''tmp''}, wq = [], ext = ()\<rparr>)"
  by (simp add: QChem_sample_def QChem_def QChem_calc_new_def qchem_fresh_def tmp_world_def
      path_exists_def path_join_def run_fails_def Let_def)

theorem calc_read_failure_witness:
  "stored_calcs (Engine_init qchem_fresh) (sample_hash [0, 0, 0]) = None
   \<and> path_exists ''tmp'' tmp_world
   \<and> read_result QChem_sample = Some (QChem_read_result parse_fails)
   \<and> QChem_read_result parse_fails ''tmp'' qchem_fresh tmp_world = Inl OSError
   \<and> calc sample_hash QChem_sample [0, 0, 0] ''tmp'' True (Engine_init qchem_fresh, tmp_world) =
       (Inl QChemEngineError,
        Engine_init \<lparr>M_xyzs = [0, 0, 0], M_qcrems = [''jobtype'' \<mapsto> ''force''],
                      threads = None, qcdir = False\<rparr>,
        \<lparr>paths = {''tmp/run.in'', ''tmp''}, wq = [], ext = ()\<rparr>)"
proof -
  have a: "stored_calcs (Engine_init qchem_fresh) (sample_hash [0, 0, 0]) = None"
    by (simp add: Engine_init_def)
  have b: "path_exists ''tmp'' tmp_world"
    by (simp add: path_exists_def tmp_world_def)
  have c: "read_result QChem_sample = Some (QChem_read_result parse_fails)"
    by (simp add: QChem_sample_def QChem_def)
  have d: "QChem_read_result parse_fails ''tmp'' (attrs (Engine_init qchem_fresh)) tmp_world
             = Inl OSError"
    by (simp add: QChem_read_result_def parse_fails_def)
  have e: "attrs (Engine_init qchem_fresh) = qchem_fresh"
    by (simp add: Engine_init_def)
  from calc_read_failure [where h = sample_hash and c = "[0, 0, 0]", OF a b c d] a b c d show ?thesis
    by (simp add: e qchem_sample_calc_new) (simp add: Engine_init_def)
qed

text \<open>
  C6, as stated, fails: for a fingerprint that is not cached and a directory that does not
  exist (so the declared outputs are absent), \<open>read_wq\<close> raises the built-in RuntimeError,
  which is not an EngineError.
\<close>

theorem read_wq_missing_dir_counterexample:
  "read_wq sample_hash QChem_sample [0, 0, 0] ''tmp'' (Engine_init qchem_fresh, empty_world) =
     (Inl RuntimeError, Engine_init qchem_fresh, empty_world)
   \<and> \<not> is_EngineError RuntimeError"
  by (simp add: read_wq_def Engine_init_def path_exists_def empty_world_def)

text \<open>
  C6, amended. \<open>read_wq\<close> returns the cached result when the fingerprint is cached, without
  touching the world. Otherwise it raises RuntimeError when the directory does not exist;
  when the directory exists and \<open>read_result\<close> raises, that error is passed on unchanged;
  when \<open>read_result\<close> returns a result, the result is stored under the fingerprint and
  returned.
\<close>

theorem read_wq_cases:
  "(stored_calcs e (h c) = Some ent \<longrightarrow>
      read_wq h C c dirname (e, w) = (Inr (result ent), e, w))
   \<and> (stored_calcs e (h c) = None \<and> \<not> path_exists dirname w \<longrightarrow>
      read_wq h C c dirname (e, w) = (Inl RuntimeError, e, w))
   \<and> (stored_calcs e (h c) = None \<and> path_exists dirname w \<and> read_result C = Some rr
        \<and> rr dirname (attrs e) w = Inl err \<longrightarrow>
      read_wq h C c dirname (e, w) = (Inl err, e, w))
   \<and> (stored_calcs e (h c) = None \<and> path_exists dirname w \<and> read_result C = Some rr
        \<and> rr dirname (attrs e) w = Inr r \<longrightarrow>
      read_wq h C c dirname (e, w) =
        (Inr r, e\<lparr>stored_calcs := (stored_calcs e)(h c \<mapsto> \<lparr>coords = c, result = r\<rparr>)\<rparr>, w))"
  by (simp add: read_wq_def)

theorem read_wq_cases_witness:
  "read_wq sample_hash QChem_sample [0, 0, 0] ''tmp'' (cached_engine, empty_world) =
     (Inr zero_result, cached_engine, empty_world)
   \<and> read_wq sample_hash QChem_sample [0, 0, 0] ''tmp'' (Engine_init qchem_fresh, empty_world) =
     (Inl RuntimeError, Engine_init qchem_fresh, empty_world)
   \<and> read_wq sample_hash QChem_sample [0, 0, 0] ''tmp'' (Engine_init qchem_fresh, tmp_world) =
     (Inl OSError, Engine_init qchem_fresh, tmp_world)
   \<and> read_wq sample_hash (QChem run_fails (parse_finds zero_result) 0.529177210) [0, 0, 0] ''tmp''
        (Engine_init qchem_fresh, tmp_world) =
     (Inr zero_result, cached_engine, tmp_world)"
proof -
  have h3: "sample_hash [0, 0, 0] = 3"
    by (simp add: sample_hash_def)
  have miss: "stored_calcs (Engine_init qchem_fresh) (sample_hash [0, 0, 0]) = None"
    by (simp add: Engine_init_def)
  have hit: "stored_calcs cached_engine (sample_hash [0, 0, 0])
               = Some \<lparr>coords = [0, 0, 0], result = zero_result\<rparr>"
    by (simp add: cached_engine_def h3)
  have nodir: "\<not> path_exists ''tmp'' empty_world"
    by (simp add: path_exists_def empty_world_def)
  have dir: "path_exists ''tmp'' tmp_world"
    by (simp add: path_exists_def tmp_world_def)
  have rr1: "read_result QChem_sample = Some (QChem_read_result parse_fails)"
    by (simp add: QChem_sample_def QChem_def)
  have rr2: "read_result (QChem run_fails (parse_finds zero_result) 0.529177210)
               = Some (QChem_read_result (parse_finds zero_result))"
    by (simp add: QChem_def)
  have f1: "QChem_read_result parse_fails ''tmp'' (attrs (Engine_init qchem_fresh)) tmp_world
              = Inl OSError"
    by (simp add: QChem_read_result_def parse_fails_def)
  have f2: "QChem_read_result (parse_finds zero_result) ''tmp''
              (attrs (Engine_init qchem_fresh)) tmp_world = Inr zero_result"
    by (simp add: QChem_read_result_def parse_finds_def)
  have upd: "(Engine_init qchem_fresh)\<lparr>stored_calcs :=
               (stored_calcs (Engine_init qchem_fresh))(sample_hash [0, 0, 0] \<mapsto>
                  \<lparr>coords = [0, 0, 0], result = zero_result\<rparr>)\<rparr> = cached_engine"
    by (simp add: Engine_init_def cached_engine_def h3)
  note t1 = read_wq_cases [where h = sample_hash and c = "[0, 0, 0]" and e = cached_engine
      and C = QChem_sample and dirname = "''tmp''" and w = empty_world, THEN conjunct1, rule_format, OF hit]
  note t2 = read_wq_cases [where h = sample_hash and c = "[0, 0, 0]"
      and e = "Engine_init qchem_fresh" and C = QChem_sample and dirname = "''tmp''"
      and w = empty_world, THEN conjunct2, THEN conjunct1, rule_format, OF conjI, OF miss nodir]
  note t3 = read_wq_cases [where h = sample_hash and c = "[0, 0, 0]"
      and e = "Engine_init qchem_fresh" and C = QChem_sample and dirname = "''tmp''"
      and w = tmp_world and rr = "QChem_read_result parse_fails" and err = OSError,
      THEN conjunct2, THEN conjunct2, THEN conjunct1, rule_format]
  note t4 = read_wq_cases [where h = sample_hash and c = "[0, 0, 0]"
      and e = "Engine_init qchem_fresh"
      and C = "QChem run_fails (parse_finds zero_result) 0.529177210" and dirname = "''tmp''"
      and w = tmp_world and rr = "QChem_read_result (parse_finds zero_result)"
      and r = zero_result,
      THEN conjunct2, THEN conjunct2, THEN conjunct2, rule_format]
  have r3: "read_wq sample_hash QChem_sample [0, 0, 0] ''tmp'' (Engine_init qchem_fresh, tmp_world) =
     (Inl OSError, Engine_init qchem_fresh, tmp_world)"
    using t3 miss dir rr1 f1 by blast
  have r4: "read_wq sample_hash (QChem run_fails (parse_finds zero_result) 0.529177210) [0, 0, 0]
        ''tmp'' (Engine_init qchem_fresh, tmp_world) = (Inr zero_result, cached_engine, tmp_world)"
    using t4 miss dir rr2 f2 upd by simp
  from t1 t2 r3 r4 show ?thesis
    by (simp add: hit)
qed

lemma submit_once:
  "calc_wq sample_hash QChem_sample [0, 0, 0] ''tmp'' False (Engine_init qchem_fresh, empty_world) =
     (Inr (), Engine_init submitted_attrs,
      \<lparr>paths = {''tmp/run.in'', ''tmp''}, wq = [sample_job], ext = ()\<rparr>)"
  by (simp add: calc_wq_def try_read_def Engine_init_def QChem_sample_def QChem_def
      QChem_calc_wq_new_def QChem_nt_def qchem_fresh_def empty_world_def path_exists_def
      makedirs_def path_join_def in_dir_def sample_job_def submitted_attrs_def Let_def)

lemma submit_again:
  "calc_wq sample_hash QChem_sample [0, 0, 0] ''tmp'' False
     (Engine_init submitted_attrs,
      \<lparr>paths = {''tmp/run.in'', ''tmp''}, wq = [sample_job], ext = ()\<rparr>) =
     (Inr (), Engine_init submitted_attrs,
      \<lparr>paths = {''tmp/run.in'', ''tmp''}, wq = [sample_job, sample_job], ext = ()\<rparr>)"
  by (simp add: calc_wq_def try_read_def Engine_init_def QChem_sample_def QChem_def
      QChem_calc_wq_new_def QChem_nt_def empty_world_def path_exists_def
      makedirs_def path_join_def in_dir_def sample_job_def submitted_attrs_def Let_def)

text \<open>
  C2, as stated, fails: on a QChem engine, submitting the same geometry twice without
  collecting in between queues two identical tasks.
\<close>

theorem resubmit_counterexample:
  "calc_wq sample_hash QChem_sample [0, 0, 0] ''tmp'' False
     (snd (calc_wq sample_hash QChem_sample [0, 0, 0] ''tmp'' False
            (Engine_init qchem_fresh, empty_world))) =
     (Inr (), Engine_init submitted_attrs,
      \<lparr>paths = {''tmp/run.in'', ''tmp''}, wq = [sample_job, sample_job], ext = ()\<rparr>)"
  by (simp add: submit_once submit_again)

lemma qchem_submit_enqueues:
  assumes "stored_calcs e (h c) = None"
      and "\<not> qcdir (attrs e)"
      and "length c mod 3 = 0"
      and "calc_wq h (QChem run parse b2a) c dirname False (e, w) = (r, e', w')"
    shows "r = Inr () \<and> stored_calcs e' = stored_calcs e \<and> \<not> qcdir (attrs e')
           \<and> length (wq w') = Suc (length (wq w))"
  using assms
  by (auto simp: calc_wq_def try_read_def QChem_def QChem_calc_wq_new_def Let_def makedirs_def
           split: if_splits)

text \<open>
  C2, amended. \<open>calc_wq\<close> is a no-op for a fingerprint that is in the result cache. It
  keeps no record of what was submitted: it never changes the result cache, and for a
  fingerprint that is not cached and not read from disk it runs \<open>calc_wq_new\<close> on every
  call, also when the same fingerprint was submitted before. On a QChem engine without
  \<open>qcdir\<close> every such call (with \<open>readfiles\<close> false and coordinates in triples) returns
  normally, queues one more task and leaves the cache and \<open>qcdir\<close> as they were, so the
  next call for the same fingerprint queues yet another one.
\<close>

theorem calc_wq_cases:
  "(stored_calcs e (h c) = Some ent \<longrightarrow>
      calc_wq h C c dirname readfiles (e, w) = (Inr (), e, w))
   \<and> stored_calcs (fst (snd (calc_wq h C c dirname readfiles (e, w)))) = stored_calcs e
   \<and> (stored_calcs e (h c) = None \<and> try_read C readfiles dirname (attrs e) w = None \<longrightarrow>
      calc_wq h C c dirname readfiles (e, w) =
        (case calc_wq_new C c dirname (attrs e, w) of (r, a', w') \<Rightarrow> (r, e\<lparr>attrs := a'\<rparr>, w')))
   \<and> (stored_calcs q (h c) = None \<and> \<not> qcdir (attrs q) \<and> length c mod 3 = 0 \<longrightarrow>
      fst (calc_wq h (QChem run parse b2a) c dirname False (q, w)) = Inr ()
      \<and> stored_calcs (fst (snd (calc_wq h (QChem run parse b2a) c dirname False (q, w))))
          = stored_calcs q
      \<and> \<not> qcdir (attrs (fst (snd (calc_wq h (QChem run parse b2a) c dirname False (q, w)))))
      \<and> length (wq (snd (snd (calc_wq h (QChem run parse b2a) c dirname False (q, w)))))
          = Suc (length (wq w)))"
proof -
  have a: "stored_calcs e (h c) = Some ent \<longrightarrow>
      calc_wq h C c dirname readfiles (e, w) = (Inr (), e, w)"
    by (simp add: calc_wq_def)
  have b: "stored_calcs (fst (snd (calc_wq h C c dirname readfiles (e, w)))) = stored_calcs e"
    by (simp add: calc_wq_def split: option.splits prod.splits)
  have c: "stored_calcs e (h c) = None \<and> try_read C readfiles dirname (attrs e) w = None \<longrightarrow>
      calc_wq h C c dirname readfiles (e, w) =
        (case calc_wq_new C c dirname (attrs e, w) of (r, a', w') \<Rightarrow> (r, e\<lparr>attrs := a'\<rparr>, w'))"
    by (simp add: calc_wq_def)
  have d: "stored_calcs q (h c) = None \<and> \<not> qcdir (attrs q) \<and> length c mod 3 = 0 \<longrightarrow>
      fst (calc_wq h (QChem run parse b2a) c dirname False (q, w)) = Inr ()
      \<and> stored_calcs (fst (snd (calc_wq h (QChem run parse b2a) c dirname False (q, w))))
          = stored_calcs q
      \<and> \<not> qcdir (attrs (fst (snd (calc_wq h (QChem run parse b2a) c dirname False (q, w)))))
      \<and> length (wq (snd (snd (calc_wq h (QChem run parse b2a) c dirname False (q, w)))))
          = Suc (length (wq w))"
  proof (intro impI, elim conjE)
    assume h: "stored_calcs q (h c) = None" "\<not> qcdir (attrs q)" "length c mod 3 = 0"
    obtain r q' w' where eq: "calc_wq h (QChem run parse b2a) c dirname False (q, w) = (r, q', w')"
      by (cases "calc_wq h (QChem run parse b2a) c dirname False (q, w)")
    from qchem_submit_enqueues [OF h eq] show
      "fst (calc_wq h (QChem run parse b2a) c dirname False (q, w)) = Inr ()
      \<and> stored_calcs (fst (snd (calc_wq h (QChem run parse b2a) c dirname False (q, w))))
          = stored_calcs q
      \<and> \<not> qcdir (attrs (fst (snd (calc_wq h (QChem run parse b2a) c dirname False (q, w)))))
      \<and> length (wq (snd (snd (calc_wq h (QChem run parse b2a) c dirname False (q, w)))))
          = Suc (length (wq w))"
      by (simp add: eq)
  qed
  from a b c d show ?thesis by blast
qed

theorem calc_wq_cases_witness:
  "calc_wq sample_hash QChem_sample [0, 0, 0] ''tmp'' False (cached_engine, empty_world) =
     (Inr (), cached_engine, empty_world)
   \<and> calc_wq sample_hash QChem_sample [0, 0, 0] ''tmp'' False
        (Engine_init submitted_attrs,
         \<lparr>paths = {''tmp/run.in'', ''tmp''}, wq = [sample_job], ext = ()\<rparr>) =
     (Inr (), Engine_init submitted_attrs,
      \<lparr>paths = {''tmp/run.in'', ''tmp''}, wq = [sample_job, sample_job], ext = ()\<rparr>)
   \<and> length (wq (snd (snd (calc_wq sample_hash QChem_sample [0, 0, 0] ''tmp'' False
        (Engine_init qchem_fresh, empty_world))))) = 1"
proof -
  have hit: "stored_calcs cached_engine (sample_hash [0, 0, 0])
               = Some \<lparr>coords = [0, 0, 0], result = zero_result\<rparr>"
    by (simp add: cached_engine_def sample_hash_def)
  have miss: "stored_calcs (Engine_init submitted_attrs) (sample_hash [0, 0, 0]) = None"
    by (simp add: Engine_init_def)
  have noread: "try_read QChem_sample False ''tmp'' (attrs (Engine_init submitted_attrs))
       \<lparr>paths = {''tmp/run.in'', ''tmp''}, wq = [sample_job], ext = ()\<rparr> = None"
    by (simp add: try_read_def)
  have new: "calc_wq_new QChem_sample [0, 0, 0] ''tmp'' (attrs (Engine_init submitted_attrs),
       \<lparr>paths = {''tmp/run.in'', ''tmp''}, wq = [sample_job], ext = ()\<rparr>) =
       (Inr (), submitted_attrs,
        \<lparr>paths = {''tmp/run.in'', ''tmp''}, wq = [sample_job, sample_job], ext = ()\<rparr>)"
    by (simp add: Engine_init_def QChem_sample_def QChem_def QChem_calc_wq_new_def QChem_nt_def
        path_exists_def path_join_def in_dir_def sample_job_def submitted_attrs_def Let_def)
  have fresh: "stored_calcs (Engine_init qchem_fresh) (sample_hash [0, 0, 0]) = None
       \<and> \<not> qcdir (attrs (Engine_init qchem_fresh)) \<and> length [0 :: real, 0, 0] mod 3 = 0"
    by (simp add: Engine_init_def qchem_fresh_def)
  note t1 = calc_wq_cases [where h = sample_hash and c = "[0, 0, 0]" and e = cached_engine
      and C = QChem_sample and dirname = "''tmp''" and readfiles = False and w = empty_world,
      THEN conjunct1, rule_format, OF hit]
  note t3 = calc_wq_cases [where h = sample_hash and c = "[0, 0, 0]"
      and e = "Engine_init submitted_attrs" and C = QChem_sample and dirname = "''tmp''"
      and readfiles = False
      and w = "\<lparr>paths = {''tmp/run.in'', ''tmp''}, wq = [sample_job], ext = ()\<rparr>",
      THEN conjunct2, THEN conjunct2, THEN conjunct1, rule_format, OF conjI, OF miss noread]
  note t4 = calc_wq_cases [where h = sample_hash and c = "[0, 0, 0]"
      and q = "Engine_init qchem_fresh" and run = run_fails and parse = parse_fails
      and ?b2a = "0.529177210" and dirname = "''tmp''" and w = empty_world,
      THEN conjunct2, THEN conjunct2, THEN conjunct2, rule_format, OF fresh]
  have r4: "length (wq (snd (snd (calc_wq sample_hash QChem_sample [0, 0, 0] ''tmp'' False
        (Engine_init qchem_fresh, empty_world))))) = 1"
    using t4 by (simp add: QChem_sample_def empty_world_def)
  from t1 t3 r4 show ?thesis
    by (simp add: new) (simp add: Engine_init_def)
qed

section \<open>QCEngineAPI.calc\<close>

lemma qcengine_calc_step:
  "QCEngineAPI_calc compute c dirname (a, w) =
     (let ret = fst (compute (schema a) c (program a) w) in
      if success ret
      then Inr \<lparr>energy = return_energy ret, gradient = return_result ret, s2 = None\<rparr>
      else Inl QCEngineAPIEngineError,
      a\<lparr>schema_traj := schema_traj a @ [fst (compute (schema a) c (program a) w)]\<rparr>,
      snd (compute (schema a) c (program a) w))"
  by (simp add: QCEngineAPI_calc_def QCEngineAPI_calc_new_def Let_def split: prod.splits)

text \<open>
  C10. \<open>QCEngineAPI.calc\<close> is \<open>calc_new\<close> and nothing else. Its outcome does not depend on
  \<open>dirname\<close>, and the world afterwards is the one \<open>qcengine.compute\<close> left: the engine
  creates no directory. Nothing is memoized (the object has no hash table): two calls
  in a row at the same coordinates run \<open>qcengine.compute\<close> twice, each appending its
  return value to \<open>schema_traj\<close>.
\<close>

theorem qcengine_calc_uncached:
  "QCEngineAPI_calc compute c dirname (a, w) = QCEngineAPI_calc_new compute c dirname (a, w)
   \<and> QCEngineAPI_calc compute c dirname (a, w) = QCEngineAPI_calc compute c dirname' (a, w)
   \<and> snd (snd (QCEngineAPI_calc compute c dirname (a, w))) =
       snd (compute (schema a) c (program a) w)
   \<and> length (schema_traj (fst (snd (QCEngineAPI_calc compute c dirname
         (snd (QCEngineAPI_calc compute c dirname (a, w))))))) = length (schema_traj a) + 2"
proof -
  have one: "QCEngineAPI_calc compute c dirname (a, w) = QCEngineAPI_calc_new compute c dirname (a, w)"
    by (simp add: QCEngineAPI_calc_def)
  have dir: "QCEngineAPI_calc compute c dirname (a, w) = QCEngineAPI_calc compute c dirname' (a, w)"
    by (simp add: qcengine_calc_step)
  have world: "snd (snd (QCEngineAPI_calc compute c dirname (a, w))) =
       snd (compute (schema a) c (program a) w)"
    by (simp add: qcengine_calc_step)
  obtain a1 w1 where st1: "snd (QCEngineAPI_calc compute c dirname (a, w)) = (a1, w1)"
    by (cases "snd (QCEngineAPI_calc compute c dirname (a, w))")
  have len1: "length (schema_traj a1) = length (schema_traj a) + 1"
    using st1 by (auto simp: qcengine_calc_step)
  have "length (schema_traj (fst (snd (QCEngineAPI_calc compute c dirname (a1, w1)))))
          = length (schema_traj a1) + 1"
    by (simp add: qcengine_calc_step)
  with len1 st1 have twice: "length (schema_traj (fst (snd (QCEngineAPI_calc compute c dirname
         (snd (QCEngineAPI_calc compute c dirname (a, w))))))) = length (schema_traj a) + 2"
    by simp
  from one dir world twice show ?thesis by blast
qed

section \<open>The ConicalIntersection objective\<close>

lemma np_scale_length: "length (np_scale k a) = length a"
  by (simp add: np_scale_def)

lemma terms_length_mismatch:
  "length (gradient rI) \<noteq> length (gradient rJ) \<Longrightarrow>
   ConicalIntersection_terms sg al rI rJ = Inl ValueError"
  by (simp add: ConicalIntersection_terms_def np_add_def np_sub_def np_dot_def Let_def)

lemma terms_zero_division:
  "length (gradient rI) = length (gradient rJ) \<Longrightarrow> energy rI - energy rJ + al = 0 \<Longrightarrow>
   ConicalIntersection_terms sg al rI rJ = Inl ZeroDivisionError"
  by (simp add: ConicalIntersection_terms_def np_add_def np_sub_def np_dot_def Let_def)

lemma terms_value:
  assumes "length (gradient rI) = length (gradient rJ)"
      and "energy rI - energy rJ + al \<noteq> 0"
    shows "ConicalIntersection_terms sg al rI rJ =
      Inr \<lparr>EAvg = 0.5 * (energy rI + energy rJ),
           EDif = energy rI - energy rJ,
           GAvg = np_scale 0.5 (map2 (+) (gradient rI) (gradient rJ)),
           GDif = map2 (-) (gradient rI) (gradient rJ),
           Penalty = (energy rI - energy rJ) ^ 2 / (energy rI - energy rJ + al),
           Obj = 0.5 * (energy rI + energy rJ)
                 + sg * ((energy rI - energy rJ) ^ 2 / (energy rI - energy rJ + al)),
           ObjGrad = map2 (+) (np_scale 0.5 (map2 (+) (gradient rI) (gradient rJ)))
                      (np_scale (sg * ((energy rI - energy rJ) ^ 2
                                         + 2 * al * (energy rI - energy rJ))
                                   / (energy rI - energy rJ + al) ^ 2)
                           (map2 (-) (gradient rI) (gradient rJ)))\<rparr>"
  using assms
  by (simp add: ConicalIntersection_terms_def np_add_def np_sub_def np_dot_def Let_def
      np_scale_length)

lemma map2_add_commute: "map2 (+) (a :: real list) b = map2 (+) b a"
proof (induction a arbitrary: b)
  case Nil
  then show ?case by simp
next
  case (Cons x xs)
  then show ?case by (cases b) (simp_all add: add.commute)
qed

lemma map2_add_zero:
  "length (xs :: real list) = length ys \<Longrightarrow> map2 (+) xs (np_scale 0 ys) = xs"
  by (induction xs ys rule: list_induct2) (simp_all add: np_scale_def)

lemma terms_tie:
  assumes "energy r1 = energy r2"
  shows "returned (ConicalIntersection_terms sg al r1 r2) =
         returned (ConicalIntersection_terms sg al r2 r1)"
proof (cases "length (gradient r1) = length (gradient r2)")
  case False
  then show ?thesis
    using terms_length_mismatch [of r1 r2 sg al] terms_length_mismatch [of r2 r1 sg al]
    by simp
next
  case len: True
  show ?thesis
  proof (cases "al = 0")
    case True
    with assms len show ?thesis
      using terms_zero_division [of r1 r2 al sg] terms_zero_division [of r2 r1 al sg]
      by simp
  next
    case False
    have l1: "length (np_scale 0.5 (map2 (+) (gradient r1) (gradient r2)))
               = length (map2 (-) (gradient r1) (gradient r2))"
      using len by (simp add: np_scale_length)
    have l2: "length (np_scale 0.5 (map2 (+) (gradient r1) (gradient r2)))
               = length (map2 (-) (gradient r2) (gradient r1))"
      using len by (simp add: np_scale_length)
    have v1: "returned (ConicalIntersection_terms sg al r1 r2) =
        Inr (energy r2, np_scale 0.5 (map2 (+) (gradient r1) (gradient r2)))"
      using terms_value [of r1 r2 al sg] len False assms map2_add_zero [OF l1]
      by (simp add: returned_def)
    have v2: "returned (ConicalIntersection_terms sg al r2 r1) =
        Inr (energy r2, np_scale 0.5 (map2 (+) (gradient r1) (gradient r2)))"
      using terms_value [of r2 r1 al sg] len False assms map2_add_zero [OF l2]
        map2_add_commute [of "gradient r2" "gradient r1"]
      by (simp add: returned_def)
    from v1 v2 show ?thesis by simp
  qed
qed

lemma objective_swap:
  "returned (ConicalIntersection_objective sg al r1 r2) =
   returned (ConicalIntersection_objective sg al r2 r1)"
proof -
  consider (lt) "energy r1 < energy r2" | (gt) "energy r2 < energy r1" | (eq) "energy r1 = energy r2"
    by linarith
  then show ?thesis
  proof cases
    case lt
    then show ?thesis by (simp add: ConicalIntersection_objective_def)
  next
    case gt
    then show ?thesis by (simp add: ConicalIntersection_objective_def)
  next
    case eq
    then show ?thesis
      using terms_tie [OF eq, of sg al] by (simp add: ConicalIntersection_objective_def)
  qed
qed

lemma calc_new_stub:
  "fst (ConicalIntersection_calc_new (stub r1) (stub r2) c dirname (a, w)) =
     (case ConicalIntersection_objective (sigma a) (alpha a) r1 r2 of
        Inl err \<Rightarrow> Inl err
      | Inr t \<Rightarrow> Inr \<lparr>energy = Obj t, gradient = ObjGrad t, s2 = None\<rparr>)"
  by (simp add: ConicalIntersection_calc_new_def stub_def Let_def split: sum.splits)

text \<open>
  C8. Symmetry of the ConicalIntersection objective: with stub engines returning \<open>r1\<close>
  and \<open>r2\<close>, exchanging the engines in roles 1 and 2 leaves the outcome of \<open>calc_new\<close>
  (the objective energy and gradient, or the error raised) unchanged.
\<close>

theorem ci_swap_roles:
  "fst (ConicalIntersection_calc_new (stub r1) (stub r2) c dirname
          (\<lparr>engine1 = e1, engine2 = e2, sigma = sg, alpha = al\<rparr>, w)) =
   fst (ConicalIntersection_calc_new (stub r2) (stub r1) c dirname
          (\<lparr>engine1 = e2, engine2 = e1, sigma = sg, alpha = al\<rparr>, w))"
proof -
  have "returned (ConicalIntersection_objective sg al r1 r2) =
        returned (ConicalIntersection_objective sg al r2 r1)"
    by (rule objective_swap)
  then show ?thesis
    by (auto simp: calc_new_stub returned_def split: sum.splits)
qed

lemma terms_fields:
  assumes "length (gradient rI) = length (gradient rJ)"
      and "energy rI - energy rJ + al \<noteq> 0"
    shows "\<exists>t. ConicalIntersection_terms sg al rI rJ = Inr t
             \<and> EAvg t = 0.5 * (energy rI + energy rJ)
             \<and> EDif t = energy rI - energy rJ
             \<and> Penalty t = (EDif t) ^ 2 / (EDif t + al)
             \<and> Obj t = EAvg t + sg * Penalty t"
  by (simp add: terms_value [OF assms])

text \<open>
  C9. The worked example: with energies \<open>-1.000000\<close> and \<open>-1.000500\<close> from the engines
  in roles 1 and 2 (gradients of equal length), \<open>\<alpha> = 0.02\<close> and \<open>\<sigma> = 3.5\<close>, the terms are
  \<open>EDif = 0.0005\<close> and \<open>Penalty = 0.0005\<^sup>2 / (0.0005 + 0.02)\<close>, which is within \<open>10\<^sup>-\<^sup>9\<close> of
  \<open>1.2195e-5\<close>, and the returned energy \<open>Obj\<close> is within \<open>5e-8\<close> of \<open>-1.0002073\<close>, so it
  agrees with it to more than six significant figures.
\<close>

theorem ci_worked_example:
  assumes "energy r1 = - 1"
      and "energy r2 = - 1.0005"
      and "length (gradient r1) = length (gradient r2)"
    shows "\<exists>t. ConicalIntersection_objective 3.5 0.02 r1 r2 = Inr t
             \<and> fst (ConicalIntersection_calc_new (stub r1) (stub r2) c dirname
                      (\<lparr>engine1 = e1, engine2 = e2, sigma = 3.5, alpha = 0.02\<rparr>, w)) =
                 Inr \<lparr>energy = Obj t, gradient = ObjGrad t, s2 = None\<rparr>
             \<and> EDif t = 0.0005
             \<and> Penalty t = 0.0005 ^ 2 / (0.0005 + 0.02)
             \<and> \<bar>Penalty t - 0.000012195\<bar> < 0.000000001
             \<and> \<bar>Obj t - (- 1.0002073)\<bar> < 0.00000005"
proof -
  have sel: "ConicalIntersection_objective 3.5 0.02 r1 r2 =
             ConicalIntersection_terms 3.5 0.02 r1 r2"
    using assms by (simp add: ConicalIntersection_objective_def)
  have nz: "energy r1 - energy r2 + 0.02 \<noteq> 0"
    using assms by simp
  from terms_fields [OF assms(3) nz, of "3.5"]
  obtain t where t: "ConicalIntersection_terms 3.5 0.02 r1 r2 = Inr t"
    and eavg: "EAvg t = 0.5 * (energy r1 + energy r2)"
    and edif: "EDif t = energy r1 - energy r2"
    and pen: "Penalty t = (EDif t) ^ 2 / (EDif t + 0.02)"
    and obj: "Obj t = EAvg t + 3.5 * Penalty t"
    by blast
  have e1: "EDif t = 0.0005"
    using edif assms by simp
  have e2: "Penalty t = 0.0005 ^ 2 / (0.0005 + 0.02)"
    using pen e1 by simp
  have e3: "\<bar>Penalty t - 0.000012195\<bar> < 0.000000001"
    unfolding e2 by (simp add: power2_eq_square)
  have e4: "\<bar>Obj t - (- 1.0002073)\<bar> < 0.00000005"
    unfolding obj eavg e2 assms(1,2) by (simp add: power2_eq_square)
  have r: "fst (ConicalIntersection_calc_new (stub r1) (stub r2) c dirname
                  (\<lparr>engine1 = e1, engine2 = e2, sigma = 3.5, alpha = 0.02\<rparr>, w)) =
           Inr \<lparr>energy = Obj t, gradient = ObjGrad t, s2 = None\<rparr>"
    unfolding calc_new_stub using sel t by simp
  from sel t r e1 e2 e3 e4 show ?thesis
    by metis
qed

theorem ci_worked_example_witness:
  "\<exists>t. ConicalIntersection_objective 3.5 0.02
          \<lparr>energy = - 1, gradient = [0.1, 0, 0], s2 = None\<rparr>
          \<lparr>energy = - 1.0005, gradient = [0, 0.2, 0], s2 = None\<rparr> = Inr t
      \<and> fst (ConicalIntersection_calc_new
                (stub \<lparr>energy = - 1, gradient = [0.1, 0, 0], s2 = None\<rparr>)
                (stub \<lparr>energy = - 1.0005, gradient = [0, 0.2, 0], s2 = None\<rparr>)
                [0, 0, 0] ''tmp''
                (\<lparr>engine1 = (), engine2 = (), sigma = 3.5, alpha = 0.02\<rparr>, empty_world)) =
          Inr \<lparr>energy = Obj t, gradient = ObjGrad t, s2 = None\<rparr>
      \<and> EDif t = 0.0005
      \<and> \<bar>Obj t - (- 1.0002073)\<bar> < 0.00000005"
proof -
  let ?r1 = "\<lparr>energy = - 1, gradient = [0.1, 0, 0], s2 = None\<rparr>"
  let ?r2 = "\<lparr>energy = - 1.0005, gradient = [0, 0.2, 0], s2 = None\<rparr>"
  have h1: "energy ?r1 = - 1" by simp
  have h2: "energy ?r2 = - 1.0005" by simp
  have h3: "length (gradient ?r1) = length (gradient ?r2)" by simp
  from ci_worked_example [OF h1 h2 h3, of "[0, 0, 0]" "''tmp''" "()" "()" empty_world]
  show ?thesis by blast
qed

section \<open>Errors and caches of ConicalIntersection\<close>

text \<open>
  C5. When the \<open>calc\<close> of the engine in role 1 raises an EngineError, \<open>calc_new\<close> raises
  ConicalIntersectionEngineError with the world as that engine left it and the engine
  in role 2 untouched: the second state is not attempted. When the first state succeeds
  and the \<open>calc\<close> of the engine in role 2 raises an EngineError, \<open>calc_new\<close> raises
  ConicalIntersectionEngineError as well. In both cases no result is returned.
\<close>

theorem ci_sub_engine_error:
  assumes "is_EngineError err"
  shows "(calc1 c (path_join dirname ''state_1'')
            (engine1 a,
             if \<not> path_exists (path_join dirname ''state_1'') w
             then makedirs (path_join dirname ''state_1'') w else w) = (Inl err, e1', w2)
          \<longrightarrow> ConicalIntersection_calc_new calc1 calc2 c dirname (a, w) =
               (Inl ConicalIntersectionEngineError, a\<lparr>engine1 := e1'\<rparr>, w2))
       \<and> (calc1 c (path_join dirname ''state_1'')
            (engine1 a,
             if \<not> path_exists (path_join dirname ''state_1'') w
             then makedirs (path_join dirname ''state_1'') w else w) = (Inr r1, e1', w2)
          \<and> calc2 c (path_join dirname ''state_2'')
            (engine2 a,
             if \<not> path_exists (path_join dirname ''state_2'') w2
             then makedirs (path_join dirname ''state_2'') w2 else w2) = (Inl err, e2', w4)
          \<longrightarrow> ConicalIntersection_calc_new calc1 calc2 c dirname (a, w) =
               (Inl ConicalIntersectionEngineError, a\<lparr>engine1 := e1', engine2 := e2'\<rparr>, w4))"
  using assms by (simp add: ConicalIntersection_calc_new_def Let_def)

lemma qchem_fails_in_state_1:
  "calc_default sample_hash QChem_sample [0, 0, 0] ''tmp/state_1''
     (Engine_init qchem_fresh, \<lparr>paths = {''tmp/state_1''}, wq = [], ext = ()\<rparr>) =
   (Inl QChemEngineError, Engine_init submitted_attrs,
    \<lparr>paths = {''tmp/state_1/run.in'', ''tmp/state_1''}, wq = [], ext = ()\<rparr>)"
  by (simp add: calc_default_def calc_def try_read_def Engine_init_def QChem_sample_def QChem_def
      QChem_calc_new_def qchem_fresh_def submitted_attrs_def path_exists_def path_join_def
      run_fails_def Let_def)

lemma blank_in_state_1:
  "calc_default sample_hash Blank [0, 0, 0] ''tmp/state_1''
     (Engine_init (), \<lparr>paths = {''tmp/state_1''}, wq = [], ext = ()\<rparr>) =
   (Inr \<lparr>energy = 0, gradient = [0, 0, 0], s2 = None\<rparr>,
    \<lparr>stored_calcs = [3 \<mapsto> \<lparr>coords = [0, 0, 0],
                             result = \<lparr>energy = 0, gradient = [0, 0, 0], s2 = None\<rparr>\<rparr>],
      attrs = ()\<rparr>,
    \<lparr>paths = {''tmp/state_1''}, wq = [], ext = ()\<rparr>)"
  by (simp add: calc_default_def calc_def try_read_def Engine_init_def Blank_def Blank_calc_new_def
      sample_hash_def path_exists_def numeral_3_eq_3)

lemma qchem_fails_in_state_2:
  "calc_default sample_hash QChem_sample [0, 0, 0] ''tmp/state_2''
     (Engine_init qchem_fresh, \<lparr>paths = {''tmp/state_2'', ''tmp/state_1''}, wq = [], ext = ()\<rparr>) =
   (Inl QChemEngineError, Engine_init submitted_attrs,
    \<lparr>paths = {''tmp/state_2/run.in'', ''tmp/state_2'', ''tmp/state_1''}, wq = [], ext = ()\<rparr>)"
  by (simp add: calc_default_def calc_def try_read_def Engine_init_def QChem_sample_def QChem_def
      QChem_calc_new_def qchem_fresh_def submitted_attrs_def path_exists_def path_join_def
      run_fails_def Let_def)

theorem ci_sub_engine_error_witness:
  "is_EngineError QChemEngineError
   \<and> ConicalIntersection_calc_new
       (calc_default sample_hash QChem_sample) (calc_default sample_hash Blank) [0, 0, 0] ''tmp''
       (\<lparr>engine1 = Engine_init qchem_fresh, engine2 = Engine_init (), sigma = sample_sigma, alpha = sample_alpha\<rparr>,
        empty_world) =
     (Inl ConicalIntersectionEngineError,
      \<lparr>engine1 = Engine_init submitted_attrs, engine2 = Engine_init (),
        sigma = sample_sigma, alpha = sample_alpha\<rparr>,
      \<lparr>paths = {''tmp/state_1/run.in'', ''tmp/state_1''}, wq = [], ext = ()\<rparr>)
   \<and> ConicalIntersection_calc_new
       (calc_default sample_hash Blank) (calc_default sample_hash QChem_sample) [0, 0, 0] ''tmp''
       (\<lparr>engine1 = Engine_init (), engine2 = Engine_init qchem_fresh, sigma = sample_sigma, alpha = sample_alpha\<rparr>,
        empty_world) =
     (Inl ConicalIntersectionEngineError,
      \<lparr>engine1 = \<lparr>stored_calcs = [3 \<mapsto> \<lparr>coords = [0, 0, 0],
                       result = \<lparr>energy = 0, gradient = [0, 0, 0], s2 = None\<rparr>\<rparr>], attrs = ()\<rparr>,
        engine2 = Engine_init submitted_attrs, sigma = sample_sigma, alpha = sample_alpha\<rparr>,
      \<lparr>paths = {''tmp/state_2/run.in'', ''tmp/state_2'', ''tmp/state_1''}, wq = [], ext = ()\<rparr>)"
proof -
  have ee: "is_EngineError QChemEngineError" by simp
  have w1: "(if \<not> path_exists ''tmp/state_1'' empty_world
             then makedirs ''tmp/state_1'' empty_world else empty_world)
            = \<lparr>paths = {''tmp/state_1''}, wq = [], ext = ()\<rparr>"
    by (simp add: path_exists_def path_join_def makedirs_def empty_world_def)
  have w3: "(if \<not> path_exists ''tmp/state_2''
                   \<lparr>paths = {''tmp/state_1''}, wq = [], ext = ()\<rparr>
             then makedirs ''tmp/state_2''

                   \<lparr>paths = {''tmp/state_1''}, wq = [], ext = ()\<rparr>
             else \<lparr>paths = {''tmp/state_1''}, wq = [], ext = ()\<rparr>)
            = \<lparr>paths = {''tmp/state_2'', ''tmp/state_1''}, wq = [], ext = ()\<rparr>"
    by (simp add: path_exists_def path_join_def makedirs_def)
  have p1: "path_join ''tmp'' ''state_1'' = ''tmp/state_1''"
    and p2: "path_join ''tmp'' ''state_2'' = ''tmp/state_2''"
    by (simp_all add: path_join_def)
  note first = ci_sub_engine_error [OF ee, THEN conjunct1, rule_format,
      where ?calc1.0 = "calc_default sample_hash QChem_sample"
        and ?calc2.0 = "calc_default sample_hash Blank"
        and c = "[0, 0, 0]" and dirname = "''tmp''" and w = empty_world
        and a = "\<lparr>engine1 = Engine_init qchem_fresh, engine2 = Engine_init (),
                   sigma = sample_sigma, alpha = sample_alpha\<rparr>"]
  note second = ci_sub_engine_error [OF ee, THEN conjunct2, rule_format,
      where ?calc1.0 = "calc_default sample_hash Blank"
        and ?calc2.0 = "calc_default sample_hash QChem_sample"
        and c = "[0, 0, 0]" and dirname = "''tmp''" and w = empty_world
        and a = "\<lparr>engine1 = Engine_init (), engine2 = Engine_init qchem_fresh,
                   sigma = sample_sigma, alpha = sample_alpha\<rparr>"]
  have r1: "ConicalIntersection_calc_new
       (calc_default sample_hash QChem_sample) (calc_default sample_hash Blank) [0, 0, 0] ''tmp''
       (\<lparr>engine1 = Engine_init qchem_fresh, engine2 = Engine_init (), sigma = sample_sigma, alpha = sample_alpha\<rparr>,
        empty_world) =
     (Inl ConicalIntersectionEngineError,
      \<lparr>engine1 = Engine_init submitted_attrs, engine2 = Engine_init (),
        sigma = sample_sigma, alpha = sample_alpha\<rparr>,
      \<lparr>paths = {''tmp/state_1/run.in'', ''tmp/state_1''}, wq = [], ext = ()\<rparr>)"
    using first [unfolded p1 w1, of "Engine_init submitted_attrs"
        "\<lparr>paths = {''tmp/state_1/run.in'', ''tmp/state_1''}, wq = [], ext = ()\<rparr>"]
    by (simp add: qchem_fails_in_state_1)
  have r2: "ConicalIntersection_calc_new
       (calc_default sample_hash Blank) (calc_default sample_hash QChem_sample) [0, 0, 0] ''tmp''
       (\<lparr>engine1 = Engine_init (), engine2 = Engine_init qchem_fresh, sigma = sample_sigma, alpha = sample_alpha\<rparr>,
        empty_world) =
     (Inl ConicalIntersectionEngineError,
      \<lparr>engine1 = \<lparr>stored_calcs = [3 \<mapsto> \<lparr>coords = [0, 0, 0],
                       result = \<lparr>energy = 0, gradient = [0, 0, 0], s2 = None\<rparr>\<rparr>], attrs = ()\<rparr>,
        engine2 = Engine_init submitted_attrs, sigma = sample_sigma, alpha = sample_alpha\<rparr>,
      \<lparr>paths = {''tmp/state_2/run.in'', ''tmp/state_2'', ''tmp/state_1''}, wq = [], ext = ()\<rparr>)"
    using second [unfolded p1 p2 w1, of _ _ "\<lparr>paths = {''tmp/state_1''}, wq = [], ext = ()\<rparr>"]
    by (simp add: blank_in_state_1 qchem_fails_in_state_2 w3)
  from ee r1 r2 show ?thesis by simp
qed

lemma blank_in_state_2:
  "calc_default sample_hash Blank [0, 0, 0] ''tmp/state_2''
     (Engine_init (), \<lparr>paths = {''tmp/state_2'', ''tmp/state_1'', ''tmp''}, wq = [], ext = ()\<rparr>) =
   (Inr \<lparr>energy = 0, gradient = [0, 0, 0], s2 = None\<rparr>,
    \<lparr>stored_calcs = [3 \<mapsto> \<lparr>coords = [0, 0, 0],
                             result = \<lparr>energy = 0, gradient = [0, 0, 0], s2 = None\<rparr>\<rparr>],
      attrs = ()\<rparr>,
    \<lparr>paths = {''tmp/state_2'', ''tmp/state_1'', ''tmp''}, wq = [], ext = ()\<rparr>)"
  by (simp add: calc_default_def calc_def try_read_def Engine_init_def Blank_def Blank_calc_new_def
      sample_hash_def path_exists_def numeral_3_eq_3)

lemma blank_in_state_1':
  "calc_default sample_hash Blank [0, 0, 0] ''tmp/state_1''
     (Engine_init (), \<lparr>paths = {''tmp/state_1'', ''tmp''}, wq = [], ext = ()\<rparr>) =
   (Inr \<lparr>energy = 0, gradient = [0, 0, 0], s2 = None\<rparr>,
    \<lparr>stored_calcs = [3 \<mapsto> \<lparr>coords = [0, 0, 0],
                             result = \<lparr>energy = 0, gradient = [0, 0, 0], s2 = None\<rparr>\<rparr>],
      attrs = ()\<rparr>,
    \<lparr>paths = {''tmp/state_1'', ''tmp''}, wq = [], ext = ()\<rparr>)"
  by (simp add: calc_default_def calc_def try_read_def Engine_init_def Blank_def Blank_calc_new_def
      sample_hash_def path_exists_def numeral_3_eq_3)

lemma blank_objective:
  "ConicalIntersection_objective sample_sigma sample_alpha
     \<lparr>energy = 0, gradient = [0, 0, 0], s2 = None\<rparr>
     \<lparr>energy = 0, gradient = [0, 0, 0], s2 = None\<rparr> =
   Inr \<lparr>EAvg = 0, EDif = 0, GAvg = [0, 0, 0], GDif = [0, 0, 0], Penalty = 0, Obj = 0,
        ObjGrad = [0, 0, 0]\<rparr>"
  by (simp add: ConicalIntersection_objective_def ConicalIntersection_terms_def np_add_def
      np_sub_def np_dot_def np_scale_def sample_alpha_def Let_def)

lemma ci_blank_calc:
  "calc sample_hash
     (ConicalIntersection (calc_default sample_hash Blank) (calc_default sample_hash Blank))
     [0, 0, 0] ''tmp'' False
     (ConicalIntersection_init (Engine_init ()) (Engine_init ()) sample_sigma sample_alpha, empty_world) =
   (Inr \<lparr>energy = 0, gradient = [0, 0, 0], s2 = None\<rparr>,
    \<lparr>stored_calcs = [3 \<mapsto> \<lparr>coords = [0, 0, 0],
                             result = \<lparr>energy = 0, gradient = [0, 0, 0], s2 = None\<rparr>\<rparr>],
      attrs = \<lparr>engine1 = blank_cached, engine2 = blank_cached, sigma = sample_sigma, alpha = sample_alpha\<rparr>\<rparr>,
    \<lparr>paths = {''tmp/state_2'', ''tmp/state_1'', ''tmp''}, wq = [], ext = ()\<rparr>)"
proof -
  have h3: "sample_hash [0, 0, 0] = 3"
    by (simp add: sample_hash_def)
  have new: "ConicalIntersection_calc_new (calc_default sample_hash Blank)
        (calc_default sample_hash Blank) [0, 0, 0] ''tmp''
        (\<lparr>engine1 = Engine_init (), engine2 = Engine_init (), sigma = sample_sigma, alpha = sample_alpha\<rparr>,
         \<lparr>paths = {''tmp''}, wq = [], ext = ()\<rparr>) =
      (Inr \<lparr>energy = 0, gradient = [0, 0, 0], s2 = None\<rparr>,
       \<lparr>engine1 = blank_cached, engine2 = blank_cached, sigma = sample_sigma, alpha = sample_alpha\<rparr>,
       \<lparr>paths = {''tmp/state_2'', ''tmp/state_1'', ''tmp''}, wq = [], ext = ()\<rparr>)"
    by (simp add: ConicalIntersection_calc_new_def path_join_def path_exists_def makedirs_def
        blank_in_state_1' blank_in_state_2 blank_objective blank_cached_def Let_def)
  show ?thesis
    by (simp add: calc_def try_read_def ConicalIntersection_def ConicalIntersection_init_def
        Engine_init_def [of "\<lparr>engine1 = Engine_init (), engine2 = Engine_init (),
                               sigma = sample_sigma, alpha = sample_alpha\<rparr>"]
        empty_world_def path_exists_def makedirs_def h3 new)
qed

text \<open>
  C4, as stated, fails: \<open>calc\<close> on a ConicalIntersection of two Blank engines leaves an
  entry for the fingerprint in the hash table of the composite engine itself.
\<close>

theorem ci_own_cache_counterexample:
  "stored_calcs
     (fst (snd (calc sample_hash
       (ConicalIntersection (calc_default sample_hash Blank) (calc_default sample_hash Blank))
       [0, 0, 0] ''tmp'' False
       (ConicalIntersection_init (Engine_init ()) (Engine_init ()) sample_sigma sample_alpha, empty_world))))
     (sample_hash [0, 0, 0]) =
   Some \<lparr>coords = [0, 0, 0], result = \<lparr>energy = 0, gradient = [0, 0, 0], s2 = None\<rparr>\<rparr>"
  by (simp add: ci_blank_calc sample_hash_def)

lemma ci_calc_new_returns:
  assumes "ConicalIntersection_calc_new calc1 calc2 c dirname (a, w) = (Inr r, a', w')"
  shows "\<exists>d1 d2 w1 w2 w3 r1 r2.
           calc1 c d1 (engine1 a, w1) = (Inr r1, engine1 a', w2)
         \<and> calc2 c d2 (engine2 a, w3) = (Inr r2, engine2 a', w')"
  using assms
  by (auto simp: ConicalIntersection_calc_new_def Let_def
           split: prod.splits sum.splits if_splits) blast+

text \<open>
  C4, amended. ConicalIntersection inherits \<open>calc\<close> and the hash table of Engine. When
  \<open>calc\<close> on the composite returns a result for a fingerprint that was not cached, the
  result is stored under the fingerprint in the hash table of the composite, and each
  of the two sub-engines holds an entry for the fingerprint in its own hash table.
\<close>

theorem ci_calc_caches:
  assumes "stored_calcs e (h c) = None"
      and "calc h (ConicalIntersection (calc_default h C1) (calc_default h C2))
             c dirname readfiles (e, w) = (Inr r, e', w')"
    shows "stored_calcs e' (h c) = Some \<lparr>coords = c, result = r\<rparr>
         \<and> stored_calcs (engine1 (attrs e')) (h c) \<noteq> None
         \<and> stored_calcs (engine2 (attrs e')) (h c) \<noteq> None"
proof -
  have own: "stored_calcs e' (h c) = Some \<lparr>coords = c, result = r\<rparr>"
    using assms by (rule calc_miss_stores)
  have "try_read (ConicalIntersection (calc_default h C1) (calc_default h C2))
          readfiles dirname (attrs e) w = None"
    by (simp add: try_read_def ConicalIntersection_def)
  with assms obtain w0 where
    "ConicalIntersection_calc_new (calc_default h C1) (calc_default h C2) c dirname (attrs e, w0)
       = (Inr r, attrs e', w')"
    by (auto simp: calc_def ConicalIntersection_def Let_def split: prod.splits sum.splits)
  from ci_calc_new_returns [OF this] obtain d1 d2 w1 w2 w3 r1 r2 where
    s1: "calc_default h C1 c d1 (engine1 (attrs e), w1) = (Inr r1, engine1 (attrs e'), w2)" and
    s2: "calc_default h C2 c d2 (engine2 (attrs e), w3) = (Inr r2, engine2 (attrs e'), w')"
    by blast
  from calc_returns_stored [OF s1 [unfolded calc_default_def]]
    calc_returns_stored [OF s2 [unfolded calc_default_def]] own
  show ?thesis by auto
qed

theorem ci_calc_caches_witness:
  "stored_calcs (ConicalIntersection_init (Engine_init ()) (Engine_init ()) sample_sigma sample_alpha)
     (sample_hash [0, 0, 0]) = None
   \<and> stored_calcs (engine1 (attrs (fst (snd (calc sample_hash
       (ConicalIntersection (calc_default sample_hash Blank) (calc_default sample_hash Blank))
       [0, 0, 0] ''tmp'' False
       (ConicalIntersection_init (Engine_init ()) (Engine_init ()) sample_sigma sample_alpha, empty_world))))))
     (sample_hash [0, 0, 0]) \<noteq> None"
proof -
  have miss: "stored_calcs (ConicalIntersection_init (Engine_init ()) (Engine_init ()) sample_sigma sample_alpha)
     (sample_hash [0, 0, 0]) = None"
    by (simp add: ConicalIntersection_init_def Engine_init_def)
  from ci_calc_caches [where h = sample_hash and c = "[0, 0, 0]", OF miss ci_blank_calc] miss
  show ?thesis
    by (simp add: ci_blank_calc)
qed

end
